theory Spec2Isabelle
  imports Complex_Main
begin

section \<open>Floating-point values\<close>

text \<open>
  An entry of a tensor is a finite number, one of the two infinities, or NaN.  Arithmetic on
  the special values is that of IEEE 754; a finite result is the exact one (rounding to the
  format and overflow of a finite result are not part of this model).
\<close>

datatype fl = Fin real | PInf | NInf | NaN

fun fl_sub :: "fl \<Rightarrow> fl \<Rightarrow> fl" where
  "fl_sub NaN b = NaN"
| "fl_sub a NaN = NaN"
| "fl_sub (Fin x) (Fin y) = Fin (x - y)"
| "fl_sub (Fin x) PInf = NInf"
| "fl_sub (Fin x) NInf = PInf"
| "fl_sub PInf PInf = NaN"
| "fl_sub PInf b = PInf"
| "fl_sub NInf NInf = NaN"
| "fl_sub NInf b = NInf"

text \<open>The sign of an infinity times a finite number; zero times an infinity is NaN.\<close>

definition inf_times :: "bool \<Rightarrow> real \<Rightarrow> fl" where
  "inf_times positive x =
     (if x = 0 then NaN else if (0 < x) = positive then PInf else NInf)"

fun fl_mul :: "fl \<Rightarrow> fl \<Rightarrow> fl" where
  "fl_mul NaN b = NaN"
| "fl_mul a NaN = NaN"
| "fl_mul (Fin x) (Fin y) = Fin (x * y)"
| "fl_mul (Fin x) PInf = inf_times True x"
| "fl_mul (Fin x) NInf = inf_times False x"
| "fl_mul PInf (Fin y) = inf_times True y"
| "fl_mul NInf (Fin y) = inf_times False y"
| "fl_mul PInf PInf = PInf"
| "fl_mul PInf NInf = NInf"
| "fl_mul NInf PInf = NInf"
| "fl_mul NInf NInf = PInf"

text \<open>\<^verbatim>\<open>x > 0\<close>: false for NaN.\<close>

fun fl_gt0 :: "fl \<Rightarrow> bool" where
  "fl_gt0 (Fin x) = (0 < x)"
| "fl_gt0 PInf = True"
| "fl_gt0 NInf = False"
| "fl_gt0 NaN = False"

fun is_fin :: "fl \<Rightarrow> bool" where
  "is_fin (Fin x) = True"
| "is_fin _ = False"

text \<open>
  The order in which a maximum is searched: the numeric one, with NaN above every number
  (a reduction of torch returns NaN as soon as one is present).
\<close>

fun fl_lt :: "fl \<Rightarrow> fl \<Rightarrow> bool" where
  "fl_lt a NaN = (a \<noteq> NaN)"
| "fl_lt NaN b = False"
| "fl_lt a PInf = (a \<noteq> PInf)"
| "fl_lt PInf b = False"
| "fl_lt NInf b = (b \<noteq> NInf)"
| "fl_lt (Fin x) NInf = False"
| "fl_lt (Fin x) (Fin y) = (x < y)"

section \<open>Tensors\<close>

text \<open>
  The operations verified here are applied to scalars (the default threshold
  \<^verbatim>\<open>torch.as_tensor(1.0)\<close>), to vectors (one parameter per unit) and to matrices of shape
  (batch, units); the contents of a tensor are therefore a scalar, a list, or a list of rows
  together with the length of a row, which a matrix without rows has as well.
\<close>

datatype tdata = D0 fl | D1 "fl list" | D2 nat "fl list list"

datatype dtype = DFloat | DInt | DBool

datatype error = ValueError | RuntimeError | IndexError

text \<open>An element-wise operation keeps the shape and acts on every entry.\<close>

fun tmap :: "(fl \<Rightarrow> fl) \<Rightarrow> tdata \<Rightarrow> tdata" where
  "tmap f (D0 x) = D0 (f x)"
| "tmap f (D1 xs) = D1 (map f xs)"
| "tmap f (D2 c rows) = D2 c (map (map f) rows)"

text \<open>The entries of a tensor, row by row.\<close>

fun entries :: "tdata \<Rightarrow> fl list" where
  "entries (D0 x) = [x]"
| "entries (D1 xs) = xs"
| "entries (D2 c rows) = concat rows"

text \<open>Two tensors have the same shape: same rank, same length in every dimension.\<close>

fun same_shape :: "tdata \<Rightarrow> tdata \<Rightarrow> bool" where
  "same_shape (D0 x) (D0 y) = True"
| "same_shape (D1 xs) (D1 ys) = (length xs = length ys)"
| "same_shape (D2 c rs) (D2 d qs) = (c = d \<and> list_all2 (\<lambda>r q. length r = length q) rs qs)"
| "same_shape _ _ = False"

text \<open>A matrix of shape (b, u).\<close>

definition has_shape2 :: "tdata \<Rightarrow> nat \<Rightarrow> nat \<Rightarrow> bool" where
  "has_shape2 t b u =
     (case t of D2 c rows \<Rightarrow> c = u \<and> length rows = b \<and> list_all (\<lambda>r. length r = u) rows
              | _ \<Rightarrow> False)"

subsection \<open>Arithmetic with broadcasting\<close>

text \<open>
  A binary operator of torch on two tensors aligns their shapes from the last dimension; a
  dimension of length 1 is stretched, a missing dimension is added in front, and any other
  mismatch raises \<^verbatim>\<open>RuntimeError\<close>.
\<close>

definition bdim :: "nat \<Rightarrow> nat \<Rightarrow> error + nat" where
  "bdim m n =
     (if m = n then Inr m else if n = 1 then Inr m else if m = 1 then Inr n
      else Inl RuntimeError)"

fun collect :: "(error + 'a) list \<Rightarrow> error + 'a list" where
  "collect [] = Inr []"
| "collect (Inl e # rs) = Inl e"
| "collect (Inr v # rs) = (case collect rs of Inl e \<Rightarrow> Inl e | Inr vs \<Rightarrow> Inr (v # vs))"

definition vec_bin :: "(fl \<Rightarrow> fl \<Rightarrow> fl) \<Rightarrow> fl list \<Rightarrow> fl list \<Rightarrow> error + fl list" where
  "vec_bin f xs ys =
     (if length xs = length ys then Inr (map2 f xs ys)
      else if length ys = 1 then Inr (map (\<lambda>x. f x (hd ys)) xs)
      else if length xs = 1 then Inr (map (\<lambda>y. f (hd xs) y) ys)
      else Inl RuntimeError)"

definition rows_bin ::
  "(fl \<Rightarrow> fl \<Rightarrow> fl) \<Rightarrow> fl list list \<Rightarrow> fl list list \<Rightarrow> error + fl list list" where
  "rows_bin f rs qs =
     (if length rs = length qs then collect (map2 (vec_bin f) rs qs)
      else if length qs = 1 then collect (map (\<lambda>r. vec_bin f r (hd qs)) rs)
      else if length rs = 1 then collect (map (\<lambda>q. vec_bin f (hd rs) q) qs)
      else Inl RuntimeError)"

fun t_bin :: "(fl \<Rightarrow> fl \<Rightarrow> fl) \<Rightarrow> tdata \<Rightarrow> tdata \<Rightarrow> error + tdata" where
  "t_bin f (D0 x) b = Inr (tmap (\<lambda>y. f x y) b)"
| "t_bin f (D1 xs) (D0 y) = Inr (D1 (map (\<lambda>x. f x y) xs))"
| "t_bin f (D2 c rs) (D0 y) = Inr (D2 c (map (map (\<lambda>x. f x y)) rs))"
| "t_bin f (D1 xs) (D1 ys) = map_sum id D1 (vec_bin f xs ys)"
| "t_bin f (D2 c rs) (D1 ys) =
     (case bdim c (length ys) of
        Inl e \<Rightarrow> Inl e
      | Inr d \<Rightarrow> map_sum id (D2 d) (collect (map (\<lambda>r. vec_bin f r ys) rs)))"
| "t_bin f (D1 xs) (D2 c qs) =
     (case bdim (length xs) c of
        Inl e \<Rightarrow> Inl e
      | Inr d \<Rightarrow> map_sum id (D2 d) (collect (map (\<lambda>q. vec_bin f xs q) qs)))"
| "t_bin f (D2 c rs) (D2 c' qs) =
     (case bdim c c' of
        Inl e \<Rightarrow> Inl e
      | Inr d \<Rightarrow> map_sum id (D2 d) (rows_bin f rs qs))"

definition t_sub :: "tdata \<Rightarrow> tdata \<Rightarrow> error + tdata" where
  "t_sub = t_bin fl_sub"

definition t_mul :: "tdata \<Rightarrow> tdata \<Rightarrow> error + tdata" where
  "t_mul = t_bin fl_mul"

text \<open>
  The type of a result is the wider type of the operands.  The difference of two tensors
  of booleans is refused.
\<close>

fun promote :: "dtype \<Rightarrow> dtype \<Rightarrow> dtype" where
  "promote DFloat b = DFloat"
| "promote a DFloat = DFloat"
| "promote DInt b = DInt"
| "promote a DInt = DInt"
| "promote DBool DBool = DBool"

subsection \<open>Argmax along the unit dimension\<close>

text \<open>
  \<^verbatim>\<open>torch.argmax(t, dim=1)\<close> gives, for every row, the index of its largest entry, the first
  one when the maximum occurs several times.  A tensor without a dimension 1, or a
  dimension 1 of length 0, raises \<^verbatim>\<open>IndexError\<close>.
\<close>

fun argmax_from :: "nat \<Rightarrow> fl \<Rightarrow> nat \<Rightarrow> fl list \<Rightarrow> nat" where
  "argmax_from bi bv i [] = bi"
| "argmax_from bi bv i (x # xs) =
     (if fl_lt bv x then argmax_from i x (Suc i) xs else argmax_from bi bv (Suc i) xs)"

fun argmax_row :: "fl list \<Rightarrow> error + nat" where
  "argmax_row [] = Inl IndexError"
| "argmax_row (x # xs) = Inr (argmax_from 0 x 1 xs)"

fun t_argmax1 :: "tdata \<Rightarrow> error + nat list" where
  "t_argmax1 (D2 c rows) = (if c = 0 then Inl IndexError else collect (map argmax_row rows))"
| "t_argmax1 _ = Inl IndexError"

subsection \<open>Assignment through two index lists\<close>

text \<open>
  \<^verbatim>\<open>mask[torch.arange(batch_size), index] = 1\<close> pairs the row numbers \<open>0 .. batch_size - 1\<close> with
  the entries of \<open>index\<close> (the two lists are broadcast against each other) and writes 1 at
  every pair; a pair outside the tensor raises \<^verbatim>\<open>IndexError\<close>.
\<close>

definition index_pairs :: "nat \<Rightarrow> nat list \<Rightarrow> error + (nat \<times> nat) list" where
  "index_pairs batch_size index =
     (if length index = batch_size then Inr (zip [0..<batch_size] index)
      else if length index = 1 then Inr (map (\<lambda>r. (r, hd index)) [0..<batch_size])
      else if batch_size = 1 then Inr (map (\<lambda>c. (0, c)) index)
      else Inl IndexError)"

fun put_ones :: "(nat \<times> nat) list \<Rightarrow> fl list list \<Rightarrow> error + fl list list" where
  "put_ones [] rows = Inr rows"
| "put_ones ((r, c) # ps) rows =
     (if r < length rows \<and> c < length (rows ! r)
      then put_ones ps (rows[r := (rows ! r)[c := Fin 1]])
      else Inl IndexError)"

definition t_index_put :: "tdata \<Rightarrow> nat \<Rightarrow> nat list \<Rightarrow> error + tdata" where
  "t_index_put t batch_size index =
     (case t of
        D2 c rows \<Rightarrow>
          (case index_pairs batch_size index of
             Inl e \<Rightarrow> Inl e
           | Inr ps \<Rightarrow> map_sum id (D2 c) (put_ones ps rows))
      | _ \<Rightarrow> Inl IndexError)"

section \<open>The default spiking function\<close>

text \<open>
  \<^verbatim>\<open>
  def forward(ctx, input_):
      out = (input_ > 0).float()
      ctx.save_for_backward(out)
      return out

  def backward(ctx, grad_output):
      (out,) = ctx.saved_tensors
      grad = grad_output * out
      return grad
  \<close>
  The context object is the list of tensors saved for the backward pass; \<open>forward\<close> returns
  the context it has filled together with its output.
\<close>

type_synonym ctx = "tdata list"

definition gt0_float :: "fl \<Rightarrow> fl" where
  "gt0_float x = (if fl_gt0 x then Fin 1 else Fin 0)"

definition Heaviside_forward :: "ctx \<Rightarrow> tdata \<Rightarrow> ctx \<times> tdata" where
  "Heaviside_forward c inp = (let out = tmap gt0_float inp in ([out], out))"

definition Heaviside_backward :: "ctx \<Rightarrow> tdata \<Rightarrow> error + tdata" where
  "Heaviside_backward c grad_output =
     (case c of [out] \<Rightarrow> t_mul grad_output out | _ \<Rightarrow> Inl ValueError)"

section \<open>Tensor objects and the differentiation graph\<close>

text \<open>
  A tensor object carries its contents and their type, whether gradients are tracked for it,
  and the node of the differentiation graph that produced it (\<^verbatim>\<open>grad_fn\<close>; none for a leaf or
  a detached tensor).  A node records the operation, the tensors it saved for the backward
  pass, and the nodes of its inputs; a leaf that requires gradients is named by its address.
  A \<^verbatim>\<open>_SpikeTensor\<close> has the attribute \<^verbatim>\<open>init_flag\<close> in addition.
\<close>

type_synonym ref = nat

datatype graph = Leaf ref | Node string "tdata list" "graph list"

record tensor =
  data :: tdata
  dtype :: dtype
  requires_grad :: bool
  grad_fn :: "graph option"
  init_flag :: "bool option"

text \<open>The leaves a backward pass started at a node accumulates gradients into.\<close>

fun leaves :: "graph \<Rightarrow> ref list" where
  "leaves (Leaf a) = [a]"
| "leaves (Node nm saved gs) = concat (map leaves gs)"

section \<open>Neurons and the state of the process\<close>

text \<open>
  The spiking function of a neuron is the default one or a function supplied by the caller.
\<close>

datatype spike_fn = Heaviside_apply | Custom "tdata \<Rightarrow> tdata"

text \<open>A neuron: the attributes of an instance whose constructor has returned.\<close>

record neuron =
  beta :: ref
  threshold :: ref
  spike_grad :: spike_fn
  init_hidden :: bool
  inhibition :: bool
  reset_mechanism :: string
  output_flag :: bool

text \<open>
  An entry of \<^verbatim>\<open>LIF.instances\<close>: the instance with the attributes its constructor has set so
  far.  The list holds the object itself, so an attribute set after the object was appended
  shows in the entry.
\<close>

record inst =
  i_init_hidden :: "bool option"
  i_inhibition :: "bool option"
  i_reset_mechanism :: "string option"
  i_output :: "bool option"
  i_beta :: "ref option"
  i_threshold :: "ref option"
  i_spike_grad :: "spike_fn option"

definition new_instance :: inst where
  "new_instance =
     \<lparr>i_init_hidden = None, i_inhibition = None, i_reset_mechanism = None, i_output = None,
      i_beta = None, i_threshold = None, i_spike_grad = None\<rparr>"

text \<open>
  The state is the store of tensor objects (an address is a position in the list; objects are
  never freed), the class attribute \<^verbatim>\<open>LIF.instances\<close>, and the attribute \<^verbatim>\<open>instances\<close> of every
  subclass of \<^verbatim>\<open>LIF\<close> that has one of its own.  An operation returns its result or the
  exception it raises, together with the state it leaves.
\<close>

record world =
  heap :: "tensor list"
  instances :: "inst list"
  sub_instances :: "string \<Rightarrow> inst list option"

type_synonym 'a run = "world \<Rightarrow> (error + 'a) \<times> world"

definition bind :: "'a run \<Rightarrow> ('a \<Rightarrow> 'b run) \<Rightarrow> 'b run" where
  "bind m f w = (case m w of (Inl e, w') \<Rightarrow> (Inl e, w') | (Inr a, w') \<Rightarrow> f a w')"

definition return :: "'a \<Rightarrow> 'a run" where
  "return a w = (Inr a, w)"

definition raise :: "error \<Rightarrow> 'a run" where
  "raise e w = (Inl e, w)"

definition alloc :: "tensor \<Rightarrow> ref run" where
  "alloc t w = (Inr (length (heap w)), w\<lparr>heap := heap w @ [t]\<rparr>)"

subsection \<open>Operations of torch on tensor objects\<close>

text \<open>The edge from an operation to one of its inputs: none when the input tracks no gradient.\<close>

definition edges :: "world \<Rightarrow> ref \<Rightarrow> graph list" where
  "edges w a =
     (let t = heap w ! a in
      if requires_grad t then [case grad_fn t of None \<Rightarrow> Leaf a | Some g \<Rightarrow> g] else [])"

definition op_result :: "string \<Rightarrow> tdata list \<Rightarrow> graph list \<Rightarrow> dtype \<Rightarrow> tdata \<Rightarrow> tensor" where
  "op_result nm saved ps ty d =
     \<lparr>data = d, dtype = ty, requires_grad = (ps \<noteq> []),
      grad_fn = (if ps = [] then None else Some (Node nm saved ps)), init_flag = None\<rparr>"

text \<open>The contents of \<open>a - b\<close> for two tensor objects.\<close>

definition tensor_sub :: "tensor \<Rightarrow> tensor \<Rightarrow> error + tdata" where
  "tensor_sub a b =
     (if dtype a = DBool \<and> dtype b = DBool then Inl RuntimeError
      else t_sub (data a) (data b))"

definition torch_sub :: "ref \<Rightarrow> ref \<Rightarrow> ref run" where
  "torch_sub a b w =
     (case tensor_sub (heap w ! a) (heap w ! b) of
        Inl e \<Rightarrow> raise e w
      | Inr d \<Rightarrow>
          alloc (op_result ''SubBackward'' [] (edges w a @ edges w b)
                   (promote (dtype (heap w ! a)) (dtype (heap w ! b))) d) w)"

definition torch_mul :: "ref \<Rightarrow> ref \<Rightarrow> ref run" where
  "torch_mul a b w =
     (case t_mul (data (heap w ! a)) (data (heap w ! b)) of
        Inl e \<Rightarrow> raise e w
      | Inr d \<Rightarrow>
          alloc (op_result ''MulBackward'' [data (heap w ! a), data (heap w ! b)]
                   (edges w a @ edges w b)
                   (promote (dtype (heap w ! a)) (dtype (heap w ! b))) d) w)"

definition torch_argmax1 :: "ref \<Rightarrow> (nat list) run" where
  "torch_argmax1 a w =
     (case t_argmax1 (data (heap w ! a)) of Inl e \<Rightarrow> raise e w | Inr index \<Rightarrow> (Inr index, w))"

text \<open>
  \<^verbatim>\<open>torch.zeros_like(t, requires_grad=rg)\<close>: only a tensor of floating-point type can track
  gradients, any other raises \<^verbatim>\<open>RuntimeError\<close>.
\<close>

definition torch_zeros_like :: "ref \<Rightarrow> bool \<Rightarrow> ref run" where
  "torch_zeros_like a rg w =
     (if rg \<and> dtype (heap w ! a) \<noteq> DFloat then raise RuntimeError w
      else alloc \<lparr>data = tmap (\<lambda>x. Fin 0) (data (heap w ! a)), dtype = dtype (heap w ! a),
                  requires_grad = rg, grad_fn = None, init_flag = None\<rparr> w)"

text \<open>Writing through an index changes the tensor object itself.\<close>

definition torch_index_put :: "ref \<Rightarrow> nat \<Rightarrow> nat list \<Rightarrow> unit run" where
  "torch_index_put a batch_size index w =
     (case t_index_put (data (heap w ! a)) batch_size index of
        Inl e \<Rightarrow> raise e w
      | Inr d \<Rightarrow> (Inr (), w\<lparr>heap := (heap w)[a := (heap w ! a)\<lparr>data := d\<rparr>]\<rparr>))"

definition torch_clone :: "ref \<Rightarrow> ref run" where
  "torch_clone a w =
     alloc (op_result ''CloneBackward'' [] (edges w a) (dtype (heap w ! a))
              (data (heap w ! a))) w"

text \<open>\<^verbatim>\<open>t.detach()\<close> is a new tensor object with the contents of \<open>t\<close> and no history.\<close>

definition torch_detach :: "ref \<Rightarrow> ref run" where
  "torch_detach a w =
     alloc \<lparr>data = data (heap w ! a), dtype = dtype (heap w ! a), requires_grad = False,
            grad_fn = None, init_flag = None\<rparr> w"

text \<open>\<^verbatim>\<open>t.detach_()\<close> removes the history of the tensor object itself.\<close>

definition torch_detach_inplace :: "ref \<Rightarrow> unit run" where
  "torch_detach_inplace a w =
     (Inr (), w\<lparr>heap := (heap w)[a := (heap w ! a)\<lparr>requires_grad := False, grad_fn := None\<rparr>]\<rparr>)"

text \<open>
  \<^verbatim>\<open>Heaviside.apply\<close> runs \<open>forward\<close> with a new context and links the output to a node that
  keeps this context for \<open>backward\<close>; its output is of floating-point type.  A function of
  the caller is applied to the contents; its node keeps nothing.
\<close>

definition apply_spike :: "spike_fn \<Rightarrow> ref \<Rightarrow> ref run" where
  "apply_spike sg a w =
     (case sg of
        Heaviside_apply \<Rightarrow>
          (let (c, out) = Heaviside_forward [] (data (heap w ! a))
           in alloc (op_result ''HeavisideBackward'' c (edges w a) DFloat out) w)
      | Custom f \<Rightarrow>
          alloc (op_result ''CustomBackward'' [] (edges w a) DFloat
                   (f (data (heap w ! a)))) w)"

definition grad_targets :: "world \<Rightarrow> ref \<Rightarrow> ref list" where
  "grad_targets w a =
     (let t = heap w ! a in
      if requires_grad t then (case grad_fn t of None \<Rightarrow> [a] | Some g \<Rightarrow> leaves g) else [])"

section \<open>The class LIF\<close>

subsection \<open>Construction\<close>

text \<open>
  \<^verbatim>\<open>
  super(LIF, self).__init__()
  LIF.instances.append(self)
  self.init_hidden = init_hidden
  self.inhibition = inhibition
  self.reset_mechanism = reset_mechanism
  self.output = output
  if not isinstance(beta, torch.Tensor):
      beta = torch.as_tensor(beta)
  if learn_beta:
      self.beta = nn.Parameter(beta)
  else:
      self.register_buffer("beta", beta)
  ...                                          # the same for threshold
  if spike_grad is None:
      self.spike_grad = self.Heaviside.apply
  else:
      self.spike_grad = spike_grad
  if reset_mechanism != "subtract" and reset_mechanism != "zero":
      raise ValueError(...)
  \<close>
  \<^verbatim>\<open>beta\<close> and \<^verbatim>\<open>threshold\<close> are given as numbers of Python or as tensors.  A number becomes
  a new scalar tensor, of floating-point type for a \<^verbatim>\<open>float\<close> and of integer type for an
  \<^verbatim>\<open>int\<close>.  A learnable attribute is wrapped in a new \<^verbatim>\<open>nn.Parameter\<close>, which tracks gradients
  and therefore raises \<^verbatim>\<open>RuntimeError\<close> for a tensor that is not of floating-point type.
\<close>

datatype arg = PyFloat real | PyInt int | Tens ref

record config =
  cfg_beta :: arg
  cfg_threshold :: arg
  cfg_spike_grad :: "spike_fn option"
  cfg_init_hidden :: bool
  cfg_inhibition :: bool
  cfg_learn_beta :: bool
  cfg_learn_threshold :: bool
  cfg_reset_mechanism :: string
  cfg_output :: bool

definition torch_as_tensor :: "arg \<Rightarrow> ref run" where
  "torch_as_tensor a =
     (case a of
        Tens r \<Rightarrow> return r
      | PyFloat x \<Rightarrow>
          alloc \<lparr>data = D0 (Fin x), dtype = DFloat, requires_grad = False, grad_fn = None,
                 init_flag = None\<rparr>
      | PyInt n \<Rightarrow>
          alloc \<lparr>data = D0 (Fin (of_int n)), dtype = DInt, requires_grad = False,
                 grad_fn = None, init_flag = None\<rparr>)"

definition nn_Parameter :: "ref \<Rightarrow> ref run" where
  "nn_Parameter a w =
     (if dtype (heap w ! a) \<noteq> DFloat then raise RuntimeError w
      else alloc \<lparr>data = data (heap w ! a), dtype = DFloat, requires_grad = True,
                  grad_fn = None, init_flag = None\<rparr> w)"

definition attribute :: "arg \<Rightarrow> bool \<Rightarrow> ref run" where
  "attribute a learn = bind (torch_as_tensor a) (\<lambda>t. if learn then nn_Parameter t else return t)"

text \<open>Whether an argument is of floating-point type, and whether a tensor argument exists.\<close>

definition arg_floating :: "world \<Rightarrow> arg \<Rightarrow> bool" where
  "arg_floating w a =
     (case a of PyFloat x \<Rightarrow> True | PyInt n \<Rightarrow> False | Tens r \<Rightarrow> dtype (heap w ! r) = DFloat)"


text \<open>
  \<open>self\<close> is the position of the new object in \<^verbatim>\<open>LIF.instances\<close>; an assignment to an
  attribute of it changes the object there.
\<close>

definition append_self :: "nat run" where
  "append_self w = (Inr (length (instances w)), w\<lparr>instances := instances w @ [new_instance]\<rparr>)"

definition set_self :: "nat \<Rightarrow> (inst \<Rightarrow> inst) \<Rightarrow> unit run" where
  "set_self self f w = (Inr (), w\<lparr>instances := (instances w)[self := f (instances w ! self)]\<rparr>)"

definition LIF_dunder_init :: "config \<Rightarrow> neuron run" where
  "LIF_dunder_init cfg =
     bind append_self (\<lambda>self.
     bind (set_self self (\<lambda>s. s\<lparr>i_init_hidden := Some (cfg_init_hidden cfg),
                                  i_inhibition := Some (cfg_inhibition cfg),
                                  i_reset_mechanism := Some (cfg_reset_mechanism cfg),
                                  i_output := Some (cfg_output cfg)\<rparr>)) (\<lambda>_.
     bind (attribute (cfg_beta cfg) (cfg_learn_beta cfg)) (\<lambda>b.
     bind (set_self self (\<lambda>s. s\<lparr>i_beta := Some b\<rparr>)) (\<lambda>_.
     bind (attribute (cfg_threshold cfg) (cfg_learn_threshold cfg)) (\<lambda>t.
     bind (set_self self (\<lambda>s. s\<lparr>i_threshold := Some t\<rparr>)) (\<lambda>_.
       let sg = (case cfg_spike_grad cfg of None \<Rightarrow> Heaviside_apply | Some f \<Rightarrow> f)
       in bind (set_self self (\<lambda>s. s\<lparr>i_spike_grad := Some sg\<rparr>)) (\<lambda>_.
            if cfg_reset_mechanism cfg \<noteq> ''subtract'' \<and> cfg_reset_mechanism cfg \<noteq> ''zero''
            then raise ValueError
            else return \<lparr>beta = b, threshold = t, spike_grad = sg,
                         init_hidden = cfg_init_hidden cfg,
                         inhibition = cfg_inhibition cfg,
                         reset_mechanism = cfg_reset_mechanism cfg,
                         output_flag = cfg_output cfg\<rparr>)))))))"

subsection \<open>Spikes and resets\<close>

definition fire :: "neuron \<Rightarrow> ref \<Rightarrow> ref run" where
  "fire self mem =
     bind (torch_sub mem (threshold self)) (\<lambda>mem_shift.
     bind (apply_spike (spike_grad self) mem_shift) (\<lambda>spk.
     return spk))"

definition fire_inhibition :: "neuron \<Rightarrow> nat \<Rightarrow> ref \<Rightarrow> ref run" where
  "fire_inhibition self batch_size mem =
     bind (torch_sub mem (threshold self)) (\<lambda>mem_shift.
     bind (torch_argmax1 mem_shift) (\<lambda>index.
     bind (apply_spike (spike_grad self) mem_shift) (\<lambda>spk_tmp.
     bind (torch_zeros_like spk_tmp False) (\<lambda>mask_spk1.
     bind (torch_index_put mask_spk1 batch_size index) (\<lambda>_.
     bind (torch_mul spk_tmp mask_spk1) (\<lambda>spk.
     return spk))))))"

definition mem_reset :: "neuron \<Rightarrow> ref \<Rightarrow> ref run" where
  "mem_reset self mem =
     bind (torch_sub mem (threshold self)) (\<lambda>mem_shift.
     bind (apply_spike (spike_grad self) mem_shift) (\<lambda>s.
     bind (torch_clone s) (\<lambda>c.
     bind (torch_detach c) (\<lambda>reset.
     return reset))))"

subsection \<open>The list of instances and the hidden states\<close>

text \<open>
  \<^verbatim>\<open>
  @classmethod
  def init(cls):
      cls.instances = []
  \<close>
  The assignment sets the attribute of the class the method is called on: of \<^verbatim>\<open>LIF\<close> for
  \<^verbatim>\<open>LIF.init()\<close>, of the subclass for a call on a subclass, which then has a list of its own
  while the constructor goes on appending to \<^verbatim>\<open>LIF.instances\<close>.
\<close>

datatype cls = LIF | Subclass string

definition LIF_init :: "cls \<Rightarrow> unit run" where
  "LIF_init c w =
     (case c of
        LIF \<Rightarrow> (Inr (), w\<lparr>instances := []\<rparr>)
      | Subclass name \<Rightarrow> (Inr (), w\<lparr>sub_instances := (sub_instances w)(name \<mapsto> [])\<rparr>))"

text \<open>
  \<^verbatim>\<open>_SpikeTensor(init_flag=False)\<close> is a tensor without entries that carries the flag.
\<close>

definition SpikeTensor :: "bool \<Rightarrow> ref run" where
  "SpikeTensor flag =
     alloc \<lparr>data = D1 [], dtype = DFloat, requires_grad = False, grad_fn = None,
            init_flag = Some flag\<rparr>"

definition init_leaky :: "ref run" where
  "init_leaky = bind (SpikeTensor False) (\<lambda>mem. return mem)"

definition init_synaptic :: "(ref \<times> ref) run" where
  "init_synaptic =
     bind (SpikeTensor False) (\<lambda>syn.
     bind (SpikeTensor False) (\<lambda>mem.
     return (syn, mem)))"

definition init_stein :: "(ref \<times> ref) run" where
  "init_stein = init_synaptic"

definition init_lapicque :: "ref run" where
  "init_lapicque = init_leaky"

definition init_alpha :: "(ref \<times> ref \<times> ref) run" where
  "init_alpha =
     bind (SpikeTensor False) (\<lambda>syn_exc.
     bind (SpikeTensor False) (\<lambda>syn_inh.
     bind (SpikeTensor False) (\<lambda>mem.
     return (syn_exc, syn_inh, mem))))"

text \<open>
  \<^verbatim>\<open>
  def detach(*args):
      for state in args:
          state.detach_()

  def zeros(*args):
      for state in args:
          state = torch.zeros_like(state)
  \<close>
  In \<open>zeros\<close> the new tensor is bound to the loop variable and to nothing else.
\<close>

fun LIF_detach :: "ref list \<Rightarrow> unit run" where
  "LIF_detach [] = return ()"
| "LIF_detach (state # args) = bind (torch_detach_inplace state) (\<lambda>_. LIF_detach args)"

fun LIF_zeros :: "ref list \<Rightarrow> unit run" where
  "LIF_zeros [] = return ()"
| "LIF_zeros (state # args) =
     bind (torch_zeros_like state False) (\<lambda>state'. LIF_zeros args)"

section \<open>Conversion of the hidden states\<close>

text \<open>
  \<^verbatim>\<open>
  def _SpikeTorchConv(*args, input_):
      states = []
      if len(args) == 1 and type(args) is not tuple:
          args = (args,)
      for arg in args:
          arg = torch.Tensor(arg)
          arg = torch.zeros_like(input_, requires_grad=True)
          states.append(arg)
      if len(states) == 1:
          return states[0]
      return states
  \<close>
  \<^verbatim>\<open>*args\<close> is always a tuple, so the first conditional never rewraps it.  \<^verbatim>\<open>torch.Tensor(arg)\<close>
  is a plain tensor object on the storage of \<open>arg\<close>; no storage is allocated for it.
\<close>

datatype states = One ref | Many "ref list"

definition torch_Tensor :: "ref \<Rightarrow> ref run" where
  "torch_Tensor a = return a"

fun conv_loop :: "ref list \<Rightarrow> ref \<Rightarrow> ref list \<Rightarrow> (ref list) run" where
  "conv_loop [] inp states = return states"
| "conv_loop (arg # args) inp states =
     bind (torch_Tensor arg) (\<lambda>arg1.
     bind (torch_zeros_like inp True) (\<lambda>arg2.
     conv_loop args inp (states @ [arg2])))"

definition SpikeTorchConv :: "ref list \<Rightarrow> ref \<Rightarrow> states run" where
  "SpikeTorchConv args inp =
     bind (conv_loop args inp []) (\<lambda>states.
     if length states = 1 then return (One (states ! 0)) else return (Many states))"

text \<open>The addresses a result holds, in its order, and the tensor objects behind them.\<close>

fun refs_of :: "states \<Rightarrow> ref list" where
  "refs_of (One a) = [a]"
| "refs_of (Many as) = as"

fun unwrapped :: "states \<Rightarrow> bool" where
  "unwrapped (One a) = True"
| "unwrapped (Many as) = False"


section \<open>Calls\<close>

text \<open>Every operation of the module, as a call that takes the state to the state it leaves.\<close>

datatype call =
    New config
  | Init cls
  | Init_leaky | Init_synaptic | Init_stein | Init_lapicque | Init_alpha
  | Detach "ref list"
  | Zeros "ref list"
  | Fire neuron ref
  | Fire_inhibition neuron nat ref
  | Mem_reset neuron ref
  | Conv "ref list" ref

fun exec :: "call \<Rightarrow> world \<Rightarrow> world" where
  "exec (New cfg) w = snd (LIF_dunder_init cfg w)"
| "exec (Init c) w = snd (LIF_init c w)"
| "exec Init_leaky w = snd (init_leaky w)"
| "exec Init_synaptic w = snd (init_synaptic w)"
| "exec Init_stein w = snd (init_stein w)"
| "exec Init_lapicque w = snd (init_lapicque w)"
| "exec Init_alpha w = snd (init_alpha w)"
| "exec (Detach args) w = snd (LIF_detach args w)"
| "exec (Zeros args) w = snd (LIF_zeros args w)"
| "exec (Fire self mem) w = snd (fire self mem w)"
| "exec (Fire_inhibition self batch_size mem) w = snd (fire_inhibition self batch_size mem w)"
| "exec (Mem_reset self mem) w = snd (mem_reset self mem w)"
| "exec (Conv args inp) w = snd (SpikeTorchConv args inp w)"

text \<open>Constructing one neuron after the other.\<close>

fun construct_all :: "config list \<Rightarrow> world \<Rightarrow> world" where
  "construct_all [] w = w"
| "construct_all (cfg # cfgs) w = construct_all cfgs (exec (New cfg) w)"

text \<open>
  A spiking function acts entry by entry as \<open>g\<close>, with finite values: the default one with
  the comparison of its forward pass, one of the caller when it maps such a \<open>g\<close> over the
  tensor.
\<close>

definition elementwise :: "spike_fn \<Rightarrow> (fl \<Rightarrow> fl) \<Rightarrow> bool" where
  "elementwise sg g =
     (case sg of
        Heaviside_apply \<Rightarrow> g = gt0_float
      | Custom f \<Rightarrow> f = tmap g \<and> (\<forall>x. is_fin (g x)))"

section \<open>Properties of the spiking function\<close>

text \<open>
  C1.  The forward pass of the default spiking function compares with \<open>>\<close>: an entry equal to
  0 gives 0, so that the input \<open>[-1.0, 0.0, 0.5]\<close> gives \<open>[0, 0, 1]\<close> and not \<open>[0, 1, 1]\<close>, as the
  step function with \<open>\<ge>\<close> of the docstring would.
\<close>

theorem Heaviside_forward_at_zero:
  "snd (Heaviside_forward [] (D1 [Fin (-1), Fin 0, Fin (1/2)])) = D1 [Fin 0, Fin 0, Fin 1]
   \<and> snd (Heaviside_forward [] (D1 [Fin (-1), Fin 0, Fin (1/2)])) \<noteq> D1 [Fin 0, Fin 1, Fin 1]"
  by (simp add: Heaviside_forward_def gt0_float_def Let_def)

text \<open>In general, an entry of the output is 1 when the entry of the input is positive, else 0.\<close>

lemma Heaviside_forward_entries:
  "entries (snd (Heaviside_forward c t)) = map (\<lambda>x. if fl_gt0 x then Fin 1 else Fin 0) (entries t)"
proof -
  have "gt0_float = (\<lambda>x. if fl_gt0 x then Fin 1 else Fin 0)"
    by (rule ext) (simp add: gt0_float_def)
  then show ?thesis
    by (cases t) (simp_all add: Heaviside_forward_def Let_def map_concat)
qed

lemma vec_bin_same: "length xs = length ys \<Longrightarrow> vec_bin f xs ys = Inr (map2 f xs ys)"
  by (simp add: vec_bin_def)

lemma collect_map2_vec_bin:
  "list_all2 (\<lambda>r q. length r = length q) rs qs \<Longrightarrow>
   collect (map2 (vec_bin f) rs qs) = Inr (map2 (map2 f) rs qs)"
  by (induction rs qs rule: list_all2_induct) (simp_all add: vec_bin_same)

lemma rows_bin_same:
  "list_all2 (\<lambda>r q. length r = length q) rs qs \<Longrightarrow>
   rows_bin f rs qs = Inr (map2 (map2 f) rs qs)"
  by (simp add: rows_bin_def list_all2_lengthD collect_map2_vec_bin)

lemma concat_map2_map2:
  "list_all2 (\<lambda>r q. length r = length q) rs qs \<Longrightarrow>
   concat (map2 (map2 f) rs qs) = map2 f (concat rs) (concat qs)"
  by (induction rs qs rule: list_all2_induct) (simp_all add: zip_append)

lemma same_shape_map2_rows:
  "list_all2 (\<lambda>r q. length r = length q) rs qs \<Longrightarrow>
   list_all2 (\<lambda>r q. length r = length q) (map2 (map2 f) rs qs) rs"
  by (induction rs qs rule: list_all2_induct) simp_all

lemma length_concat_same:
  "list_all2 (\<lambda>r q. length r = length q) rs qs \<Longrightarrow> length (concat rs) = length (concat qs)"
  by (induction rs qs rule: list_all2_induct) simp_all

lemma same_shape_entries: "same_shape a b \<Longrightarrow> length (entries a) = length (entries b)"
  by (induction a b rule: same_shape.induct) (simp_all add: length_concat_same)

lemma t_bin_same_shape:
  "same_shape a b \<Longrightarrow>
   \<exists>c. t_bin f a b = Inr c \<and> same_shape c a \<and> entries c = map2 f (entries a) (entries b)"
  by (induction a b rule: same_shape.induct)
     (simp_all add: vec_bin_same rows_bin_same concat_map2_map2 same_shape_map2_rows bdim_def)

lemma fl_mul_one: "fl_mul a (Fin 1) = a"
  by (cases a) (simp_all add: inf_times_def)

lemma fl_mul_zero: "is_fin a \<Longrightarrow> fl_mul a (Fin 0) = Fin 0"
  by (cases a) simp_all

text \<open>
  C5 (as the code has it).  With the cached forward output \<open>out\<close> and an upstream gradient \<open>g\<close>
  of the same shape, the backward pass returns the entry-wise product \<open>g * out\<close>: the gradient
  passes where the output was 1, and is 0 where the output was 0 and the gradient is finite.
  For the output \<open>[0, 1, 1]\<close> and the gradient \<open>[3, 4, 5]\<close> it returns \<open>[0, 4, 5]\<close>.
\<close>

theorem Heaviside_backward_gating:
  assumes "same_shape g out"
  shows "\<exists>grad. Heaviside_backward [out] g = Inr grad \<and> same_shape grad g
           \<and> entries grad = map2 fl_mul (entries g) (entries out)
           \<and> (\<forall>i < length (entries out).
                 (entries out ! i = Fin 1 \<longrightarrow> entries grad ! i = entries g ! i)
               \<and> (entries out ! i = Fin 0 \<and> is_fin (entries g ! i)
                    \<longrightarrow> entries grad ! i = Fin 0))"
proof -
  from t_bin_same_shape [OF assms, of fl_mul] obtain grad where
    g: "t_bin fl_mul g out = Inr grad" "same_shape grad g"
       "entries grad = map2 fl_mul (entries g) (entries out)" by blast
  have len: "length (entries g) = length (entries out)"
    using assms by (rule same_shape_entries)
  have "\<forall>i < length (entries out).
          (entries out ! i = Fin 1 \<longrightarrow> entries grad ! i = entries g ! i)
        \<and> (entries out ! i = Fin 0 \<and> is_fin (entries g ! i) \<longrightarrow> entries grad ! i = Fin 0)"
    using g(3) len by (simp add: fl_mul_one fl_mul_zero)
  with g show ?thesis
    by (simp add: Heaviside_backward_def t_mul_def)
qed

theorem Heaviside_backward_gating_witness:
  "same_shape (D1 [Fin 3, Fin 4, Fin 5]) (D1 [Fin 0, Fin 1, Fin 1])
   \<and> is_fin (Fin 3)
   \<and> Heaviside_backward [D1 [Fin 0, Fin 1, Fin 1]] (D1 [Fin 3, Fin 4, Fin 5])
     = Inr (D1 [Fin 0, Fin 4, Fin 5])"
  using Heaviside_backward_gating [of "D1 [Fin 3, Fin 4, Fin 5]" "D1 [Fin 0, Fin 1, Fin 1]"]
  by (simp add: Heaviside_backward_def t_mul_def vec_bin_def)

text \<open>
  C5 as stated does not hold for every gradient: where the forward output was 0 and the
  upstream gradient is infinite, the product is NaN and not 0.
\<close>

theorem Heaviside_backward_gating_counterexample:
  "same_shape (D1 [PInf, Fin 4, Fin 5]) (D1 [Fin 0, Fin 1, Fin 1])
   \<and> Heaviside_backward [D1 [Fin 0, Fin 1, Fin 1]] (D1 [PInf, Fin 4, Fin 5])
     = Inr (D1 [NaN, Fin 4, Fin 5])
   \<and> NaN \<noteq> Fin 0"
  by (simp add: Heaviside_backward_def t_mul_def vec_bin_def inf_times_def)

section \<open>Properties of the class and of the conversion\<close>

lemma attribute_result:
  "\<exists>res new. attribute a learn w = (res, w\<lparr>heap := heap w @ new\<rparr>)
     \<and> (learn \<and> \<not> arg_floating w a \<longrightarrow> res = Inl RuntimeError)
     \<and> (\<not> (learn \<and> \<not> arg_floating w a) \<longrightarrow> (\<exists>r. res = Inr r))"
proof (cases a)
  case (PyFloat x)
  let ?t = "\<lparr>data = D0 (Fin x), dtype = DFloat, requires_grad = False, grad_fn = None,
              init_flag = None\<rparr>"
  show ?thesis
  proof (cases learn)
    case True
    have "attribute a learn w
          = (Inr (Suc (length (heap w))),
             w\<lparr>heap := heap w @ [?t, ?t\<lparr>requires_grad := True\<rparr>]\<rparr>)"
      using PyFloat True
      by (simp add: attribute_def bind_def torch_as_tensor_def alloc_def nn_Parameter_def)
    then show ?thesis using PyFloat by (auto simp: arg_floating_def)
  next
    case False
    have "attribute a learn w = (Inr (length (heap w)), w\<lparr>heap := heap w @ [?t]\<rparr>)"
      using PyFloat False
      by (simp add: attribute_def bind_def torch_as_tensor_def alloc_def return_def)
    then show ?thesis using False by auto
  qed
next
  case (PyInt n)
  let ?t = "\<lparr>data = D0 (Fin (of_int n)), dtype = DInt, requires_grad = False, grad_fn = None,
              init_flag = None\<rparr>"
  show ?thesis
  proof (cases learn)
    case True
    have "attribute a learn w = (Inl RuntimeError, w\<lparr>heap := heap w @ [?t]\<rparr>)"
      using PyInt True
      by (simp add: attribute_def bind_def torch_as_tensor_def alloc_def nn_Parameter_def
            raise_def)
    then show ?thesis using PyInt True by (auto simp: arg_floating_def)
  next
    case False
    have "attribute a learn w = (Inr (length (heap w)), w\<lparr>heap := heap w @ [?t]\<rparr>)"
      using PyInt False
      by (simp add: attribute_def bind_def torch_as_tensor_def alloc_def return_def)
    then show ?thesis using False by auto
  qed
next
  case (Tens r)
  show ?thesis
  proof (cases "learn \<and> dtype (heap w ! r) \<noteq> DFloat")
    case True
    have "attribute a learn w = (Inl RuntimeError, w)"
      using Tens True
      by (simp add: attribute_def bind_def torch_as_tensor_def nn_Parameter_def raise_def
            return_def)
    then have "attribute a learn w = (Inl RuntimeError, w\<lparr>heap := heap w @ []\<rparr>)" by simp
    moreover have "learn \<and> \<not> arg_floating w a" using Tens True by (simp add: arg_floating_def)
    ultimately show ?thesis by blast
  next
    case False
    show ?thesis
    proof (cases learn)
      case True
      with False have fl: "dtype (heap w ! r) = DFloat" by simp
      have "attribute a learn w
            = (Inr (length (heap w)),
               w\<lparr>heap := heap w @ [\<lparr>data = data (heap w ! r), dtype = DFloat,
                   requires_grad = True, grad_fn = None, init_flag = None\<rparr>]\<rparr>)"
        using Tens True fl
        by (simp add: attribute_def bind_def torch_as_tensor_def nn_Parameter_def alloc_def
              return_def)
      then show ?thesis using Tens fl by (auto simp: arg_floating_def)
    next
      case nl: False
      have "attribute a learn w = (Inr r, w)"
        using Tens nl
        by (simp add: attribute_def bind_def torch_as_tensor_def return_def)
      then have "attribute a learn w = (Inr r, w\<lparr>heap := heap w @ []\<rparr>)" by simp
      then show ?thesis using nl by blast
    qed
  qed
qed






lemma LIF_zeros_result:
  "fst (LIF_zeros args w) = Inr ()
   \<and> instances (snd (LIF_zeros args w)) = instances w
   \<and> sub_instances (snd (LIF_zeros args w)) = sub_instances w
   \<and> take (length (heap w)) (heap (snd (LIF_zeros args w))) = heap w
   \<and> length (heap (snd (LIF_zeros args w))) = length (heap w) + length args"
proof (induction args arbitrary: w)
  case Nil
  show ?case by (simp add: return_def)
next
  case (Cons state args)
  let ?w1 = "snd (torch_zeros_like state False w)"
  have step: "LIF_zeros (state # args) w = LIF_zeros args ?w1"
    by (simp add: bind_def torch_zeros_like_def alloc_def)
  have h1: "heap ?w1 = heap w @ [\<lparr>data = tmap (\<lambda>x. Fin 0) (data (heap w ! state)),
              dtype = dtype (heap w ! state),
              requires_grad = False, grad_fn = None, init_flag = None\<rparr>]"
    and i1: "instances ?w1 = instances w" "sub_instances ?w1 = sub_instances w"
    by (simp_all add: torch_zeros_like_def alloc_def)
  from Cons.IH [of ?w1]
  have ih: "fst (LIF_zeros args ?w1) = Inr ()"
    "instances (snd (LIF_zeros args ?w1)) = instances ?w1"
    "sub_instances (snd (LIF_zeros args ?w1)) = sub_instances ?w1"
    "take (length (heap ?w1)) (heap (snd (LIF_zeros args ?w1))) = heap ?w1"
    "length (heap (snd (LIF_zeros args ?w1))) = length (heap ?w1) + length args"
    by simp_all
  have "take (length (heap w)) (heap (snd (LIF_zeros args ?w1)))
        = take (length (heap w)) (take (length (heap ?w1)) (heap (snd (LIF_zeros args ?w1))))"
    by (simp add: h1 min_def)
  also have "\<dots> = heap w"
    by (simp only: ih(4)) (simp add: h1)
  finally show ?case
    using ih(1,2,3,5) unfolding step by (simp add: i1 h1)
qed

text \<open>
  C3.  \<open>zeros\<close> returns normally, and every tensor object that existed before the call, the
  states passed to it among them, is after the call what it was before: the zero tensors
  are new objects that only the loop variable was bound to.
\<close>

theorem zeros_leaves_states_unchanged:
  "fst (LIF_zeros args w) = Inr ()
   \<and> (\<forall>a < length (heap w). heap (snd (LIF_zeros args w)) ! a = heap w ! a)
   \<and> (\<forall>state \<in> set args. state < length (heap w) \<longrightarrow>
         data (heap (snd (LIF_zeros args w)) ! state) = data (heap w ! state))"
proof -
  have t: "take (length (heap w)) (heap (snd (LIF_zeros args w))) = heap w"
    using LIF_zeros_result by blast
  have "\<forall>a < length (heap w). heap (snd (LIF_zeros args w)) ! a = heap w ! a"
  proof (intro allI impI)
    fix a assume "a < length (heap w)"
    then have "take (length (heap w)) (heap (snd (LIF_zeros args w))) ! a
               = heap (snd (LIF_zeros args w)) ! a" by simp
    then show "heap (snd (LIF_zeros args w)) ! a = heap w ! a" by (simp add: t)
  qed
  then show ?thesis using LIF_zeros_result by auto
qed

theorem zeros_leaves_states_unchanged_witness:
  "data (heap (snd (LIF_zeros [0, 1]
      \<lparr>heap = [\<lparr>data = D1 [Fin 1, Fin 2], dtype = DFloat, requires_grad = False,
                grad_fn = None, init_flag = None\<rparr>,
               \<lparr>data = D2 1 [[Fin 3], [Fin 4]], dtype = DFloat, requires_grad = False,
                grad_fn = None, init_flag = None\<rparr>],
       instances = [], sub_instances = Map.empty\<rparr>)) ! 0) = D1 [Fin 1, Fin 2]
   \<and> data (heap (snd (LIF_zeros [0, 1]
      \<lparr>heap = [\<lparr>data = D1 [Fin 1, Fin 2], dtype = DFloat, requires_grad = False,
                grad_fn = None, init_flag = None\<rparr>,
               \<lparr>data = D2 1 [[Fin 3], [Fin 4]], dtype = DFloat, requires_grad = False,
                grad_fn = None, init_flag = None\<rparr>],
       instances = [], sub_instances = Map.empty\<rparr>)) ! 1) = D2 1 [[Fin 3], [Fin 4]]"
  using zeros_leaves_states_unchanged [of "[0, 1]"
      "\<lparr>heap = [\<lparr>data = D1 [Fin 1, Fin 2], dtype = DFloat, requires_grad = False,
                grad_fn = None, init_flag = None\<rparr>,
               \<lparr>data = D2 1 [[Fin 3], [Fin 4]], dtype = DFloat, requires_grad = False,
                grad_fn = None, init_flag = None\<rparr>],
       instances = [], sub_instances = Map.empty\<rparr>"]
  by simp

lemma conv_loop_result:
  "inp < length (heap w) \<Longrightarrow> dtype (heap w ! inp) = DFloat \<Longrightarrow>
   fst (conv_loop args inp states w)
     = Inr (states @ [length (heap w) ..< length (heap w) + length args])
   \<and> heap (snd (conv_loop args inp states w))
     = heap w @ replicate (length args)
         \<lparr>data = tmap (\<lambda>x. Fin 0) (data (heap w ! inp)), dtype = DFloat,
          requires_grad = True, grad_fn = None, init_flag = None\<rparr>
   \<and> instances (snd (conv_loop args inp states w)) = instances w
   \<and> sub_instances (snd (conv_loop args inp states w)) = sub_instances w"
proof (induction args arbitrary: states w)
  case Nil
  show ?case by (simp add: return_def)
next
  case (Cons arg args)
  let ?z = "\<lparr>data = tmap (\<lambda>x. Fin 0) (data (heap w ! inp)), dtype = DFloat,
              requires_grad = True, grad_fn = None, init_flag = None\<rparr>"
  let ?w1 = "w\<lparr>heap := heap w @ [?z]\<rparr>"
  have step: "conv_loop (arg # args) inp states w
              = conv_loop args inp (states @ [length (heap w)]) ?w1"
    using Cons.prems(2)
    by (simp add: bind_def torch_Tensor_def return_def torch_zeros_like_def alloc_def)
  have inp1: "inp < length (heap ?w1)" using Cons.prems by simp
  have cell: "heap ?w1 ! inp = heap w ! inp" using Cons.prems by (simp add: nth_append)
  have fl1: "dtype (heap ?w1 ! inp) = DFloat" using Cons.prems(2) unfolding cell .
  have upt: "[length (heap w) ..< length (heap w) + length (arg # args)]
             = length (heap w) # [length (heap ?w1) ..< length (heap ?w1) + length args]"
    by (simp add: upt_conv_Cons del: upt_Suc)
  have rep: "heap ?w1 @ replicate (length args) ?z = heap w @ replicate (length (arg # args)) ?z"
    by (simp add: replicate_app_Cons_same)
  from Cons.IH [OF inp1 fl1, of "states @ [length (heap w)]"]
  have ih: "fst (conv_loop args inp (states @ [length (heap w)]) ?w1)
              = Inr ((states @ [length (heap w)])
                     @ [length (heap ?w1) ..< length (heap ?w1) + length args])"
           "heap (snd (conv_loop args inp (states @ [length (heap w)]) ?w1))
              = heap ?w1 @ replicate (length args) ?z"
           "instances (snd (conv_loop args inp (states @ [length (heap w)]) ?w1)) = instances ?w1"
           "sub_instances (snd (conv_loop args inp (states @ [length (heap w)]) ?w1))
              = sub_instances ?w1"
    unfolding cell by blast+
  show ?case
    unfolding step ih upt rep by simp
qed

lemma same_shape_tmap: "same_shape (tmap f t) t"
  by (cases t) (simp_all add: list_all2_map1 list_all2_same)

lemma entries_tmap_zero: "x \<in> set (entries (tmap (\<lambda>x. Fin 0) t)) \<Longrightarrow> x = Fin 0"
  by (cases t) auto

lemma SpikeTorchConv_result:
  assumes "inp < length (heap w)" and "dtype (heap w ! inp) = DFloat"
  shows "fst (SpikeTorchConv args inp w)
           = Inr (if length args = 1 then One (length (heap w))
                  else Many [length (heap w) ..< length (heap w) + length args])"
    and "heap (snd (SpikeTorchConv args inp w))
           = heap w @ replicate (length args)
               \<lparr>data = tmap (\<lambda>x. Fin 0) (data (heap w ! inp)), dtype = DFloat,
                requires_grad = True, grad_fn = None, init_flag = None\<rparr>"
    and "instances (snd (SpikeTorchConv args inp w)) = instances w"
    and "sub_instances (snd (SpikeTorchConv args inp w)) = sub_instances w"
proof -
  obtain r w' where rw: "conv_loop args inp [] w = (r, w')" by (cases "conv_loop args inp [] w")
  from conv_loop_result [OF assms, of args "[]"] rw
  have r: "r = Inr [length (heap w) ..< length (heap w) + length args]"
    and h: "heap w' = heap w @ replicate (length args)
               \<lparr>data = tmap (\<lambda>x. Fin 0) (data (heap w ! inp)), dtype = DFloat,
                requires_grad = True, grad_fn = None, init_flag = None\<rparr>"
    and i: "instances w' = instances w" "sub_instances w' = sub_instances w"
    by simp_all
  have one: "length args = 1 \<Longrightarrow> [length (heap w) ..< length (heap w) + length args] ! 0 = length (heap w)"
    by simp
  show "fst (SpikeTorchConv args inp w)
           = Inr (if length args = 1 then One (length (heap w))
                  else Many [length (heap w) ..< length (heap w) + length args])"
    using one by (simp add: SpikeTorchConv_def bind_def rw r return_def)
  show "heap (snd (SpikeTorchConv args inp w))
           = heap w @ replicate (length args)
               \<lparr>data = tmap (\<lambda>x. Fin 0) (data (heap w ! inp)), dtype = DFloat,
                requires_grad = True, grad_fn = None, init_flag = None\<rparr>"
    by (simp add: SpikeTorchConv_def bind_def rw r return_def h)
  show "instances (snd (SpikeTorchConv args inp w)) = instances w"
    by (simp add: SpikeTorchConv_def bind_def rw r return_def i)
  show "sub_instances (snd (SpikeTorchConv args inp w)) = sub_instances w"
    by (simp add: SpikeTorchConv_def bind_def rw r return_def i)
qed


text \<open>
  C7 (as the code has it).  For a reference tensor \<open>inp\<close> of floating-point type and any list
  of states, \<open>_SpikeTorchConv\<close> returns one tensor per state, in the order of allocation, which
  is the order of the states: each is a new object (its address is none of the addresses in
  use before, and the addresses are distinct, so that writing to one touches neither another
  nor an existing tensor), has the shape of the reference, holds only zeros and tracks
  gradients.  The result is the tensor itself when exactly one state was given and the list
  otherwise.
\<close>

theorem SpikeTorchConv_fresh_zeros:
  assumes "inp < length (heap w)" and "dtype (heap w ! inp) = DFloat"
  shows "\<exists>s. fst (SpikeTorchConv args inp w) = Inr s
     \<and> unwrapped s = (length args = 1)
     \<and> refs_of s = [length (heap w) ..< length (heap w) + length args]
     \<and> length (refs_of s) = length args
     \<and> distinct (refs_of s)
     \<and> take (length (heap w)) (heap (snd (SpikeTorchConv args inp w))) = heap w
     \<and> (\<forall>a \<in> set (refs_of s).
           length (heap w) \<le> a
         \<and> a < length (heap (snd (SpikeTorchConv args inp w)))
         \<and> same_shape (data (heap (snd (SpikeTorchConv args inp w)) ! a)) (data (heap w ! inp))
         \<and> (\<forall>x \<in> set (entries (data (heap (snd (SpikeTorchConv args inp w)) ! a))). x = Fin 0)
         \<and> dtype (heap (snd (SpikeTorchConv args inp w)) ! a) = DFloat
         \<and> requires_grad (heap (snd (SpikeTorchConv args inp w)) ! a))"
proof -
  let ?n = "length (heap w)"
  let ?z = "\<lparr>data = tmap (\<lambda>x. Fin 0) (data (heap w ! inp)), dtype = DFloat,
              requires_grad = True, grad_fn = None, init_flag = None\<rparr>"
  let ?s = "if length args = 1 then One ?n else Many [?n ..< ?n + length args]"
  note res = SpikeTorchConv_result [OF assms, of args]
  have refs: "refs_of ?s = [?n ..< ?n + length args]" by simp
  have cellz: "heap (snd (SpikeTorchConv args inp w)) ! a = ?z"
    if "a \<in> set (refs_of ?s)" for a
  proof -
    from that have a: "?n \<le> a" "a - ?n < length args" unfolding refs by auto
    then show ?thesis unfolding res(2) by (simp add: nth_append)
  qed
  have each: "?n \<le> a
         \<and> a < length (heap (snd (SpikeTorchConv args inp w)))
         \<and> same_shape (data (heap (snd (SpikeTorchConv args inp w)) ! a)) (data (heap w ! inp))
         \<and> (\<forall>x \<in> set (entries (data (heap (snd (SpikeTorchConv args inp w)) ! a))). x = Fin 0)
         \<and> dtype (heap (snd (SpikeTorchConv args inp w)) ! a) = DFloat
         \<and> requires_grad (heap (snd (SpikeTorchConv args inp w)) ! a)"
    if "a \<in> set (refs_of ?s)" for a
  proof -
    from that have a: "?n \<le> a" "a < ?n + length args" unfolding refs by auto
    have len: "length (heap (snd (SpikeTorchConv args inp w))) = ?n + length args"
      unfolding res(2) by simp
    show ?thesis
      unfolding cellz [OF that] len using a
      by (auto simp: same_shape_tmap dest: entries_tmap_zero)
  qed
  have "fst (SpikeTorchConv args inp w) = Inr ?s" by (rule res(1))
  moreover have "unwrapped ?s = (length args = 1)" by simp
  moreover have "length (refs_of ?s) = length args" unfolding refs by simp
  moreover have "distinct (refs_of ?s)" unfolding refs by simp
  moreover have "take ?n (heap (snd (SpikeTorchConv args inp w))) = heap w"
    unfolding res(2) by simp
  ultimately show ?thesis using refs each by blast
qed

theorem SpikeTorchConv_fresh_zeros_witness:
  "(2::nat) < length (heap
      \<lparr>heap = [\<lparr>data = D1 [], dtype = DFloat, requires_grad = False, grad_fn = None,
                init_flag = Some False\<rparr>,
               \<lparr>data = D1 [], dtype = DFloat, requires_grad = False, grad_fn = None,
                init_flag = Some False\<rparr>,
               \<lparr>data = D2 3 [[Fin 1, Fin 2, Fin 3], [Fin 4, Fin 5, Fin 6]], dtype = DFloat,
                requires_grad = False, grad_fn = None, init_flag = None\<rparr>],
       instances = [], sub_instances = Map.empty\<rparr>)
   \<and> fst (SpikeTorchConv [0, 1] 2
      \<lparr>heap = [\<lparr>data = D1 [], dtype = DFloat, requires_grad = False, grad_fn = None,
                init_flag = Some False\<rparr>,
               \<lparr>data = D1 [], dtype = DFloat, requires_grad = False, grad_fn = None,
                init_flag = Some False\<rparr>,
               \<lparr>data = D2 3 [[Fin 1, Fin 2, Fin 3], [Fin 4, Fin 5, Fin 6]], dtype = DFloat,
                requires_grad = False, grad_fn = None, init_flag = None\<rparr>],
       instances = [], sub_instances = Map.empty\<rparr>) = Inr (Many [3, 4])
   \<and> map data (drop 3 (heap (snd (SpikeTorchConv [0, 1] 2
      \<lparr>heap = [\<lparr>data = D1 [], dtype = DFloat, requires_grad = False, grad_fn = None,
                init_flag = Some False\<rparr>,
               \<lparr>data = D1 [], dtype = DFloat, requires_grad = False, grad_fn = None,
                init_flag = Some False\<rparr>,
               \<lparr>data = D2 3 [[Fin 1, Fin 2, Fin 3], [Fin 4, Fin 5, Fin 6]], dtype = DFloat,
                requires_grad = False, grad_fn = None, init_flag = None\<rparr>],
       instances = [], sub_instances = Map.empty\<rparr>))))
     = [D2 3 [[Fin 0, Fin 0, Fin 0], [Fin 0, Fin 0, Fin 0]],
        D2 3 [[Fin 0, Fin 0, Fin 0], [Fin 0, Fin 0, Fin 0]]]"
  using SpikeTorchConv_fresh_zeros [of 2
      "\<lparr>heap = [\<lparr>data = D1 [], dtype = DFloat, requires_grad = False, grad_fn = None,
                init_flag = Some False\<rparr>,
               \<lparr>data = D1 [], dtype = DFloat, requires_grad = False, grad_fn = None,
                init_flag = Some False\<rparr>,
               \<lparr>data = D2 3 [[Fin 1, Fin 2, Fin 3], [Fin 4, Fin 5, Fin 6]], dtype = DFloat,
                requires_grad = False, grad_fn = None, init_flag = None\<rparr>],
       instances = [], sub_instances = Map.empty\<rparr>" "[0, 1]"]
  by (simp add: SpikeTorchConv_def bind_def return_def torch_Tensor_def torch_zeros_like_def
        alloc_def)

text \<open>
  C7 as stated does not hold for every reference: for a reference of integer type
  \<open>_SpikeTorchConv\<close> raises \<^verbatim>\<open>RuntimeError\<close> and returns no tensor.
\<close>

theorem SpikeTorchConv_fresh_zeros_counterexample:
  "SpikeTorchConv [0] 1
      \<lparr>heap = [\<lparr>data = D1 [], dtype = DFloat, requires_grad = False, grad_fn = None,
                init_flag = Some False\<rparr>,
               \<lparr>data = D2 2 [[Fin 1, Fin 2], [Fin 3, Fin 4]], dtype = DInt,
                requires_grad = False, grad_fn = None, init_flag = None\<rparr>],
       instances = [], sub_instances = Map.empty\<rparr>
   = (Inl RuntimeError,
      \<lparr>heap = [\<lparr>data = D1 [], dtype = DFloat, requires_grad = False, grad_fn = None,
                init_flag = Some False\<rparr>,
               \<lparr>data = D2 2 [[Fin 1, Fin 2], [Fin 3, Fin 4]], dtype = DInt,
                requires_grad = False, grad_fn = None, init_flag = None\<rparr>],
       instances = [], sub_instances = Map.empty\<rparr>)"
  by (simp add: SpikeTorchConv_def bind_def return_def torch_Tensor_def torch_zeros_like_def
        raise_def)




lemmas prim_defs = bind_def return_def raise_def alloc_def torch_sub_def torch_mul_def
  torch_argmax1_def torch_zeros_like_def torch_index_put_def torch_clone_def torch_detach_def
  apply_spike_def

lemma fire_frame:
  "take (length (heap w)) (heap (snd (fire self mem w))) = heap w
   \<and> instances (snd (fire self mem w)) = instances w
   \<and> sub_instances (snd (fire self mem w)) = sub_instances w"
  by (simp add: fire_def prim_defs Let_def split: sum.splits prod.splits spike_fn.splits)

lemma mem_reset_frame:
  "take (length (heap w)) (heap (snd (mem_reset self mem w))) = heap w
   \<and> instances (snd (mem_reset self mem w)) = instances w
   \<and> sub_instances (snd (mem_reset self mem w)) = sub_instances w"
  by (simp add: mem_reset_def prim_defs Let_def split: sum.splits prod.splits spike_fn.splits)

lemma fire_inhibition_frame:
  "take (length (heap w)) (heap (snd (fire_inhibition self batch_size mem w))) = heap w
   \<and> instances (snd (fire_inhibition self batch_size mem w)) = instances w
   \<and> sub_instances (snd (fire_inhibition self batch_size mem w)) = sub_instances w"
  by (auto simp add: fire_inhibition_def prim_defs Let_def
           split: sum.splits prod.splits spike_fn.splits)

lemma take_nth_same: "take n ys = xs \<Longrightarrow> a < length xs \<Longrightarrow> ys ! a = xs ! a"
  by (metis nth_take length_take min_less_iff_conj)

text \<open>
  C9.  \<open>fire\<close>, \<open>fire_inhibition\<close> and \<open>mem_reset\<close> leave every tensor object that existed before
  the call as it was (the membrane, \<open>beta\<close> and \<open>threshold\<close> among them) and leave the lists of
  instances as they were, whether they return or raise; they only add new objects.
\<close>

theorem neuron_operations_frame:
  assumes "m = fire self mem \<or> m = fire_inhibition self batch_size mem \<or> m = mem_reset self mem"
  shows "(\<forall>a < length (heap w). heap (snd (m w)) ! a = heap w ! a)
       \<and> length (heap w) \<le> length (heap (snd (m w)))
       \<and> instances (snd (m w)) = instances w
       \<and> sub_instances (snd (m w)) = sub_instances w"
proof -
  have t: "take (length (heap w)) (heap (snd (m w))) = heap w"
    and i: "instances (snd (m w)) = instances w" "sub_instances (snd (m w)) = sub_instances w"
    using assms fire_frame [of w self mem] fire_inhibition_frame [of w self batch_size mem]
      mem_reset_frame [of w self mem] by auto
  have "length (take (length (heap w)) (heap (snd (m w)))) = length (heap w)"
    by (simp only: t)
  then have "length (heap w) \<le> length (heap (snd (m w)))"
    by simp
  moreover have "\<forall>a < length (heap w). heap (snd (m w)) ! a = heap w ! a"
    using take_nth_same [OF t] by blast
  ultimately show ?thesis using i by blast
qed

theorem neuron_operations_frame_witness:
  "(0::nat) < length (heap
      \<lparr>heap = [\<lparr>data = D2 3 [[Fin (11/10), Fin (19/10), Fin (8/10)], [Fin 0, Fin 0, Fin 0]],
                dtype = DFloat, requires_grad = False, grad_fn = None, init_flag = None\<rparr>,
               \<lparr>data = D0 (Fin 1), dtype = DFloat, requires_grad = False, grad_fn = None,
                init_flag = None\<rparr>],
       instances = [], sub_instances = Map.empty\<rparr>)
   \<and> data (heap (snd (fire_inhibition
        \<lparr>beta = 1, threshold = 1, spike_grad = Heaviside_apply, init_hidden = False,
         inhibition = True, reset_mechanism = ''subtract'', output_flag = False\<rparr> 2 0
      \<lparr>heap = [\<lparr>data = D2 3 [[Fin (11/10), Fin (19/10), Fin (8/10)], [Fin 0, Fin 0, Fin 0]],
                dtype = DFloat, requires_grad = False, grad_fn = None, init_flag = None\<rparr>,
               \<lparr>data = D0 (Fin 1), dtype = DFloat, requires_grad = False, grad_fn = None,
                init_flag = None\<rparr>],
       instances = [], sub_instances = Map.empty\<rparr>)) ! 0)
     = D2 3 [[Fin (11/10), Fin (19/10), Fin (8/10)], [Fin 0, Fin 0, Fin 0]]"
  using neuron_operations_frame [of
      "fire_inhibition
        \<lparr>beta = 1, threshold = 1, spike_grad = Heaviside_apply, init_hidden = False,
         inhibition = True, reset_mechanism = ''subtract'', output_flag = False\<rparr> 2 0"
      "\<lparr>beta = 1, threshold = 1, spike_grad = Heaviside_apply, init_hidden = False,
         inhibition = True, reset_mechanism = ''subtract'', output_flag = False\<rparr>" 0 2
      "\<lparr>heap = [\<lparr>data = D2 3 [[Fin (11/10), Fin (19/10), Fin (8/10)], [Fin 0, Fin 0, Fin 0]],
                dtype = DFloat, requires_grad = False, grad_fn = None, init_flag = None\<rparr>,
               \<lparr>data = D0 (Fin 1), dtype = DFloat, requires_grad = False, grad_fn = None,
                init_flag = None\<rparr>],
       instances = [], sub_instances = Map.empty\<rparr>"]
  by simp

lemma LIF_detach_instances: "instances (snd (LIF_detach args w)) = instances w"
  by (induction args arbitrary: w) (simp_all add: return_def bind_def torch_detach_inplace_def)

lemma conv_loop_instances: "instances (snd (conv_loop args inp states w)) = instances w"
  by (induction args arbitrary: w states)
     (simp_all add: return_def bind_def torch_zeros_like_def alloc_def torch_Tensor_def
        raise_def)

lemma SpikeTorchConv_instances: "instances (snd (SpikeTorchConv args inp w)) = instances w"
proof -
  obtain r w' where rw: "conv_loop args inp [] w = (r, w')" by (cases "conv_loop args inp [] w")
  with conv_loop_instances [of args inp "[]" w] have "instances w' = instances w" by simp
  then show ?thesis
    by (cases r) (simp_all add: SpikeTorchConv_def bind_def rw return_def)
qed

text \<open>A construction, whatever it returns or raises, appends exactly one entry.\<close>

lemma LIF_dunder_init_instances:
  "\<exists>entry. instances (snd (LIF_dunder_init cfg w)) = instances w @ [entry]
        \<and> i_reset_mechanism entry = Some (cfg_reset_mechanism cfg)
        \<and> i_init_hidden entry = Some (cfg_init_hidden cfg)
        \<and> i_inhibition entry = Some (cfg_inhibition cfg)
        \<and> i_output entry = Some (cfg_output cfg)"
proof -
  let ?e0 = "new_instance\<lparr>i_init_hidden := Some (cfg_init_hidden cfg),
                          i_inhibition := Some (cfg_inhibition cfg),
                          i_reset_mechanism := Some (cfg_reset_mechanism cfg),
                          i_output := Some (cfg_output cfg)\<rparr>"
  let ?w0 = "w\<lparr>instances := instances w @ [?e0]\<rparr>"
  obtain rb nb where b: "attribute (cfg_beta cfg) (cfg_learn_beta cfg) ?w0
                           = (rb, ?w0\<lparr>heap := heap ?w0 @ nb\<rparr>)"
    using attribute_result [of "cfg_beta cfg" "cfg_learn_beta cfg" ?w0] by blast
  show ?thesis
  proof (cases rb)
    case (Inl e)
    have "LIF_dunder_init cfg w = (Inl e, ?w0\<lparr>heap := heap ?w0 @ nb\<rparr>)"
      using b Inl
      by (simp add: LIF_dunder_init_def bind_def append_self_def set_self_def)
    then show ?thesis by (simp add: new_instance_def)
  next
    case (Inr bref)
    let ?e1 = "?e0\<lparr>i_beta := Some bref\<rparr>"
    let ?w1 = "w\<lparr>heap := heap w @ nb, instances := instances w @ [?e1]\<rparr>"
    obtain rt nt where t: "attribute (cfg_threshold cfg) (cfg_learn_threshold cfg) ?w1
                           = (rt, ?w1\<lparr>heap := heap ?w1 @ nt\<rparr>)"
      using attribute_result [of "cfg_threshold cfg" "cfg_learn_threshold cfg" ?w1] by blast
    have prefix: "LIF_dunder_init cfg w
        = bind (attribute (cfg_threshold cfg) (cfg_learn_threshold cfg)) (\<lambda>t.
          bind (set_self (length (instances w)) (\<lambda>s. s\<lparr>i_threshold := Some t\<rparr>)) (\<lambda>_.
            let sg = (case cfg_spike_grad cfg of None \<Rightarrow> Heaviside_apply | Some f \<Rightarrow> f)
            in bind (set_self (length (instances w)) (\<lambda>s. s\<lparr>i_spike_grad := Some sg\<rparr>)) (\<lambda>_.
              if cfg_reset_mechanism cfg \<noteq> ''subtract'' \<and> cfg_reset_mechanism cfg \<noteq> ''zero''
              then raise ValueError
              else return \<lparr>beta = bref, threshold = t, spike_grad = sg,
                         init_hidden = cfg_init_hidden cfg,
                         inhibition = cfg_inhibition cfg,
                         reset_mechanism = cfg_reset_mechanism cfg,
                         output_flag = cfg_output cfg\<rparr>))) ?w1"
      using b Inr
      by (simp add: LIF_dunder_init_def bind_def [of append_self] bind_def [of "set_self _ _"]
            bind_def [of "attribute (cfg_beta cfg) _"] append_self_def set_self_def)
    show ?thesis
    proof (cases rt)
      case (Inl e)
      have "LIF_dunder_init cfg w = (Inl e, ?w1\<lparr>heap := heap ?w1 @ nt\<rparr>)"
        unfolding prefix using t Inl by (simp add: bind_def)
      then show ?thesis by (simp add: new_instance_def)
    next
      case (Inr tref)
      let ?sg = "case cfg_spike_grad cfg of None \<Rightarrow> Heaviside_apply | Some f \<Rightarrow> f"
      let ?e3 = "?e1\<lparr>i_threshold := Some tref, i_spike_grad := Some ?sg\<rparr>"
      have "instances (snd (LIF_dunder_init cfg w)) = instances w @ [?e3]"
        unfolding prefix using t Inr
        by (simp add: bind_def set_self_def Let_def raise_def return_def)
      then show ?thesis by (simp add: new_instance_def)
    qed
  qed
qed

lemma exec_instances:
  "instances (exec c w) =
     (case c of New cfg \<Rightarrow> instances (snd (LIF_dunder_init cfg w))
              | Init LIF \<Rightarrow> []
              | _ \<Rightarrow> instances w)"
proof (cases c)
  case (Init k)
  then show ?thesis by (cases k) (simp_all add: LIF_init_def)
next
  case (Fire self mem)
  then show ?thesis using fire_frame [of w self mem] by simp
next
  case (Fire_inhibition self bs mem)
  then show ?thesis using fire_inhibition_frame [of w self bs mem] by simp
next
  case (Mem_reset self mem)
  then show ?thesis using mem_reset_frame [of w self mem] by simp
next
  case (Zeros args)
  then show ?thesis using LIF_zeros_result [of args w] by simp
qed (simp_all add: init_leaky_def init_synaptic_def init_stein_def
       init_lapicque_def init_alpha_def SpikeTensor_def bind_def alloc_def return_def
       LIF_detach_instances SpikeTorchConv_instances)

lemma construct_all_instances:
  "map i_reset_mechanism (instances (construct_all cfgs w))
     = map i_reset_mechanism (instances w) @ map (\<lambda>c. Some (cfg_reset_mechanism c)) cfgs
   \<and> map i_init_hidden (instances (construct_all cfgs w))
     = map i_init_hidden (instances w) @ map (\<lambda>c. Some (cfg_init_hidden c)) cfgs
   \<and> map i_inhibition (instances (construct_all cfgs w))
     = map i_inhibition (instances w) @ map (\<lambda>c. Some (cfg_inhibition c)) cfgs
   \<and> map i_output (instances (construct_all cfgs w))
     = map i_output (instances w) @ map (\<lambda>c. Some (cfg_output c)) cfgs"
proof (induction cfgs arbitrary: w)
  case Nil
  show ?case by simp
next
  case (Cons cfg cfgs)
  obtain entry where s: "instances (snd (LIF_dunder_init cfg w)) = instances w @ [entry]"
    "i_reset_mechanism entry = Some (cfg_reset_mechanism cfg)"
    "i_init_hidden entry = Some (cfg_init_hidden cfg)"
    "i_inhibition entry = Some (cfg_inhibition cfg)" "i_output entry = Some (cfg_output cfg)"
    using LIF_dunder_init_instances [of cfg w] by auto
  show ?case
    using Cons.IH [of "exec (New cfg) w"] by (simp add: s)
qed

text \<open>
  The part of the life of the list of instances that the code keeps: from an empty list,
  constructing neurons from \<open>cfgs\<close> one after the other leaves one entry per construction, in
  the order of construction; every construction adds exactly one entry and no other call adds
  any; \<open>init\<close> called on \<open>LIF\<close> leaves the list empty, and every other call keeps the entries
  that were there.
\<close>

lemma registry_construction_and_frame:
  "(instances w = [] \<longrightarrow>
      length (instances (construct_all cfgs w)) = length cfgs
    \<and> map i_reset_mechanism (instances (construct_all cfgs w))
        = map (\<lambda>c. Some (cfg_reset_mechanism c)) cfgs
    \<and> map i_init_hidden (instances (construct_all cfgs w))
        = map (\<lambda>c. Some (cfg_init_hidden c)) cfgs
    \<and> map i_inhibition (instances (construct_all cfgs w))
        = map (\<lambda>c. Some (cfg_inhibition c)) cfgs
    \<and> map i_output (instances (construct_all cfgs w)) = map (\<lambda>c. Some (cfg_output c)) cfgs)
   \<and> length (instances (exec (New cfg) w)) = Suc (length (instances w))
   \<and> ((\<forall>cfg. c \<noteq> New cfg) \<longrightarrow> length (instances (exec c w)) \<le> length (instances w))
   \<and> instances (exec (Init LIF) w) = []
   \<and> (c \<noteq> Init LIF \<longrightarrow> take (length (instances w)) (instances (exec c w)) = instances w)"
proof -
  have a: "instances w = [] \<longrightarrow>
      length (instances (construct_all cfgs w)) = length cfgs
    \<and> map i_reset_mechanism (instances (construct_all cfgs w))
        = map (\<lambda>c. Some (cfg_reset_mechanism c)) cfgs
    \<and> map i_init_hidden (instances (construct_all cfgs w))
        = map (\<lambda>c. Some (cfg_init_hidden c)) cfgs
    \<and> map i_inhibition (instances (construct_all cfgs w))
        = map (\<lambda>c. Some (cfg_inhibition c)) cfgs
    \<and> map i_output (instances (construct_all cfgs w)) = map (\<lambda>c. Some (cfg_output c)) cfgs"
  proof
    assume e: "instances w = []"
    from construct_all_instances [of cfgs w] e
    have m: "map i_reset_mechanism (instances (construct_all cfgs w))
               = map (\<lambda>c. Some (cfg_reset_mechanism c)) cfgs"
      "map i_init_hidden (instances (construct_all cfgs w))
               = map (\<lambda>c. Some (cfg_init_hidden c)) cfgs"
      "map i_inhibition (instances (construct_all cfgs w))
               = map (\<lambda>c. Some (cfg_inhibition c)) cfgs"
      "map i_output (instances (construct_all cfgs w)) = map (\<lambda>c. Some (cfg_output c)) cfgs"
      by simp_all
    from m(1) have "length (instances (construct_all cfgs w)) = length cfgs"
      by (metis length_map)
    with m show "length (instances (construct_all cfgs w)) = length cfgs
    \<and> map i_reset_mechanism (instances (construct_all cfgs w))
        = map (\<lambda>c. Some (cfg_reset_mechanism c)) cfgs
    \<and> map i_init_hidden (instances (construct_all cfgs w))
        = map (\<lambda>c. Some (cfg_init_hidden c)) cfgs
    \<and> map i_inhibition (instances (construct_all cfgs w))
        = map (\<lambda>c. Some (cfg_inhibition c)) cfgs
    \<and> map i_output (instances (construct_all cfgs w)) = map (\<lambda>c. Some (cfg_output c)) cfgs"
      by blast
  qed
  have b: "length (instances (exec (New cfg) w)) = Suc (length (instances w))"
    using LIF_dunder_init_instances [of cfg w] by auto
  have c: "(\<forall>cfg. c \<noteq> New cfg) \<longrightarrow> length (instances (exec c w)) \<le> length (instances w)"
    unfolding exec_instances by (cases c) (simp_all split: cls.splits)
  have d: "instances (exec (Init LIF) w) = []"
    by (simp add: LIF_init_def)
  have e: "c \<noteq> Init LIF \<longrightarrow> take (length (instances w)) (instances (exec c w)) = instances w"
  proof (cases c)
    case (New cfg')
    then show ?thesis using LIF_dunder_init_instances [of cfg' w] by auto
  qed (simp_all add: exec_instances del: exec.simps split: cls.splits)
  from a b c d e show ?thesis by blast
qed

text \<open>
  C8.  \<open>init\<close> empties the list of the class it is called on.  Called on a subclass of \<open>LIF\<close>,
  as every concrete neuron is one, it gives the subclass an empty list of its own and leaves
  \<^verbatim>\<open>LIF.instances\<close>, the list the constructor appends to, as full as it was: after one
  construction and \<^verbatim>\<open>Leaky.init()\<close> the list still has its entry, where \<^verbatim>\<open>LIF.init()\<close> leaves
  none.
\<close>

theorem init_on_subclass_keeps_registry:
  "length (instances (exec (New
        \<lparr>cfg_beta = PyFloat (9/10), cfg_threshold = PyFloat 1, cfg_spike_grad = None,
         cfg_init_hidden = False, cfg_inhibition = False, cfg_learn_beta = False,
         cfg_learn_threshold = False, cfg_reset_mechanism = ''subtract'', cfg_output = False\<rparr>)
      \<lparr>heap = [], instances = [], sub_instances = Map.empty\<rparr>)) = 1
   \<and> length (instances (exec (Init (Subclass ''Leaky'')) (exec (New
        \<lparr>cfg_beta = PyFloat (9/10), cfg_threshold = PyFloat 1, cfg_spike_grad = None,
         cfg_init_hidden = False, cfg_inhibition = False, cfg_learn_beta = False,
         cfg_learn_threshold = False, cfg_reset_mechanism = ''subtract'', cfg_output = False\<rparr>)
      \<lparr>heap = [], instances = [], sub_instances = Map.empty\<rparr>))) = 1
   \<and> sub_instances (exec (Init (Subclass ''Leaky'')) (exec (New
        \<lparr>cfg_beta = PyFloat (9/10), cfg_threshold = PyFloat 1, cfg_spike_grad = None,
         cfg_init_hidden = False, cfg_inhibition = False, cfg_learn_beta = False,
         cfg_learn_threshold = False, cfg_reset_mechanism = ''subtract'', cfg_output = False\<rparr>)
      \<lparr>heap = [], instances = [], sub_instances = Map.empty\<rparr>)) ''Leaky'' = Some []
   \<and> instances (exec (Init LIF) (exec (New
        \<lparr>cfg_beta = PyFloat (9/10), cfg_threshold = PyFloat 1, cfg_spike_grad = None,
         cfg_init_hidden = False, cfg_inhibition = False, cfg_learn_beta = False,
         cfg_learn_threshold = False, cfg_reset_mechanism = ''subtract'', cfg_output = False\<rparr>)
      \<lparr>heap = [], instances = [], sub_instances = Map.empty\<rparr>)) = []"
  by (simp add: LIF_dunder_init_def bind_def attribute_def torch_as_tensor_def alloc_def
        return_def raise_def append_self_def set_self_def Let_def LIF_init_def)

section \<open>Spikes, inhibition and the reset signal\<close>

lemma fl_lt_irrefl: "\<not> fl_lt a a"
  by (cases a) simp_all

lemma fl_lt_above: "\<not> fl_lt b a \<Longrightarrow> fl_lt b x \<Longrightarrow> fl_lt a x"
  by (cases a; cases b; cases x) simp_all

lemma fl_lt_not_below: "\<not> fl_lt b a \<Longrightarrow> fl_lt b x \<Longrightarrow> \<not> fl_lt x a"
  by (cases a; cases b; cases x) simp_all

lemma argmax_from_spec:
  assumes "bi < length ys" and "bv = ys ! bi"
    and "\<forall>j < length ys. \<not> fl_lt bv (ys ! j)" and "\<forall>j < bi. fl_lt (ys ! j) bv"
  shows "argmax_from bi bv (length ys) xs < length (ys @ xs)
       \<and> (\<forall>j < length (ys @ xs).
             \<not> fl_lt ((ys @ xs) ! argmax_from bi bv (length ys) xs) ((ys @ xs) ! j))
       \<and> (\<forall>j < argmax_from bi bv (length ys) xs.
             fl_lt ((ys @ xs) ! j) ((ys @ xs) ! argmax_from bi bv (length ys) xs))"
  using assms
proof (induction xs arbitrary: bi bv ys)
  case Nil
  then show ?case by simp
next
  case (Cons x xs)
  show ?case
  proof (cases "fl_lt bv x")
    case True
    have 1: "length ys < length (ys @ [x])" by simp
    have 2: "x = (ys @ [x]) ! length ys" by simp
    have 3: "\<forall>j < length (ys @ [x]). \<not> fl_lt x ((ys @ [x]) ! j)"
      using Cons.prems(3) True
      by (auto simp: nth_append less_Suc_eq fl_lt_irrefl dest: fl_lt_not_below)
    have 4: "\<forall>j < length ys. fl_lt ((ys @ [x]) ! j) x"
      using Cons.prems(3) True by (auto simp: nth_append intro: fl_lt_above)
    from Cons.IH [OF 1 2 3 4] True show ?thesis by simp
  next
    case False
    have 1: "bi < length (ys @ [x])" using Cons.prems(1) by simp
    have 2: "bv = (ys @ [x]) ! bi" using Cons.prems(1,2) by (simp add: nth_append)
    have 3: "\<forall>j < length (ys @ [x]). \<not> fl_lt bv ((ys @ [x]) ! j)"
      using Cons.prems(3) False by (auto simp: nth_append less_Suc_eq)
    have 4: "\<forall>j < bi. fl_lt ((ys @ [x]) ! j) bv"
      using Cons.prems(1,4) by (auto simp: nth_append)
    from Cons.IH [OF 1 2 3 4] False show ?thesis by simp
  qed
qed

text \<open>
  The index \<^verbatim>\<open>argmax\<close> gives: no entry of the row is above the entry at it, and every
  entry before it is below.
\<close>

lemma argmax_row_spec:
  assumes "xs \<noteq> []"
  shows "\<exists>k. argmax_row xs = Inr k \<and> k < length xs
           \<and> (\<forall>j < length xs. \<not> fl_lt (xs ! k) (xs ! j)) \<and> (\<forall>j < k. fl_lt (xs ! j) (xs ! k))"
proof -
  from assms obtain x xs' where xs: "xs = x # xs'" by (cases xs) auto
  have "argmax_from 0 x (length [x]) xs' < length ([x] @ xs')
       \<and> (\<forall>j < length ([x] @ xs').
             \<not> fl_lt (([x] @ xs') ! argmax_from 0 x (length [x]) xs') (([x] @ xs') ! j))
       \<and> (\<forall>j < argmax_from 0 x (length [x]) xs'.
             fl_lt (([x] @ xs') ! j) (([x] @ xs') ! argmax_from 0 x (length [x]) xs'))"
    by (rule argmax_from_spec) (simp_all add: fl_lt_irrefl)
  then show ?thesis unfolding xs by simp
qed

lemma collect_all_ok:
  "\<forall>x \<in> set xs. \<exists>v. f x = Inr v \<Longrightarrow>
   \<exists>vs. collect (map f xs) = Inr vs \<and> length vs = length xs
        \<and> (\<forall>i < length xs. f (xs ! i) = Inr (vs ! i))"
proof (induction xs)
  case Nil
  show ?case by simp
next
  case (Cons x xs)
  from Cons.prems obtain v where v: "f x = Inr v" by auto
  from Cons obtain vs where vs: "collect (map f xs) = Inr vs" "length vs = length xs"
    "\<forall>i < length xs. f (xs ! i) = Inr (vs ! i)" by auto
  have "collect (map f (x # xs)) = Inr (v # vs)" by (simp add: v vs)
  moreover have "\<forall>i < length (x # xs). f ((x # xs) ! i) = Inr ((v # vs) ! i)"
    using v vs(3) by (auto simp: nth_Cons split: nat.splits)
  ultimately show ?case using vs(2) by (intro exI [of _ "v # vs"]) simp
qed

lemma put_ones_zip:
  assumes "length index = n" and "a + n \<le> length rows"
    and "\<forall>i < n. index ! i < length (rows ! (a + i))"
  shows "\<exists>rows'. put_ones (zip [a ..< a + n] index) rows = Inr rows'
           \<and> length rows' = length rows
           \<and> (\<forall>r < length rows. rows' ! r =
                 (if a \<le> r \<and> r < a + n then (rows ! r)[index ! (r - a) := Fin 1]
                  else rows ! r))"
  using assms
proof (induction index arbitrary: a n rows)
  case Nil
  then show ?case by auto
next
  case (Cons c index)
  from Cons.prems(1) obtain m where n: "n = Suc m" and m: "length index = m" by auto
  have z: "zip [a ..< a + n] (c # index) = (a, c) # zip [Suc a ..< Suc a + m] index"
    unfolding n by (simp add: upt_conv_Cons del: upt_Suc)
  have a_ok: "a < length rows" "c < length (rows ! a)"
    using Cons.prems(2,3) unfolding n by (auto dest: spec [of _ 0])
  let ?rows1 = "rows[a := (rows ! a)[c := Fin 1]]"
  have p2: "Suc a + m \<le> length ?rows1" using Cons.prems(2) unfolding n by simp
  have p3: "\<forall>i < m. index ! i < length (?rows1 ! (Suc a + i))"
  proof (intro allI impI)
    fix i assume "i < m"
    then have "(c # index) ! Suc i < length (rows ! (a + Suc i))"
      using Cons.prems(3) unfolding n by blast
    then show "index ! i < length (?rows1 ! (Suc a + i))" by simp
  qed
  from Cons.IH [OF m p2 p3] obtain rows' where r:
    "put_ones (zip [Suc a ..< Suc a + m] index) ?rows1 = Inr rows'"
    "length rows' = length ?rows1"
    "\<forall>r < length ?rows1. rows' ! r =
        (if Suc a \<le> r \<and> r < Suc a + m then (?rows1 ! r)[index ! (r - Suc a) := Fin 1]
         else ?rows1 ! r)" by blast
  have "put_ones (zip [a ..< a + n] (c # index)) rows = Inr rows'"
    unfolding z using a_ok r(1) by simp
  moreover have "length rows' = length rows" using r(2) by simp
  moreover have "\<forall>r < length rows. rows' ! r =
                 (if a \<le> r \<and> r < a + n then (rows ! r)[(c # index) ! (r - a) := Fin 1]
                  else rows ! r)"
  proof (intro allI impI)
    fix r assume rl: "r < length rows"
    then have rr: "rows' ! r =
        (if Suc a \<le> r \<and> r < Suc a + m then (?rows1 ! r)[index ! (r - Suc a) := Fin 1]
         else ?rows1 ! r)" using r(3) by simp
    show "rows' ! r = (if a \<le> r \<and> r < a + n then (rows ! r)[(c # index) ! (r - a) := Fin 1]
                  else rows ! r)"
    proof (cases "r = a")
      case True
      then show ?thesis using rr a_ok unfolding n by simp
    next
      case False
      have other: "?rows1 ! r = rows ! r" using False by simp
      show ?thesis
      proof (cases "a < r \<and> r < a + n")
        case True
        then have d: "r - a = Suc (r - Suc a)" by arith
        from True have "Suc a \<le> r \<and> r < Suc a + m" unfolding n by arith
        with rr other have "rows' ! r = (rows ! r)[index ! (r - Suc a) := Fin 1]"
          by simp
        with True show ?thesis by (simp add: d)
      next
        case False2: False
        with False have "\<not> (Suc a \<le> r \<and> r < Suc a + m)" "\<not> (a \<le> r \<and> r < a + n)"
          unfolding n by arith+
        with rr other show ?thesis by auto
      qed
    qed
  qed
  ultimately show ?case by blast
qed

lemma fire_inhibition_data:
  assumes sub: "tensor_sub (heap w ! mem) (heap w ! threshold self) = Inr sh"
    and am: "t_argmax1 sh = Inr index"
    and tmp: "tmp = (case spike_grad self of
                  Heaviside_apply \<Rightarrow> snd (Heaviside_forward [] sh) | Custom f \<Rightarrow> f sh)"
    and put: "t_index_put (tmap (\<lambda>x. Fin 0) tmp) batch_size index = Inr msk"
    and mul: "t_mul tmp msk = Inr out"
  shows "\<exists>spk w'. fire_inhibition self batch_size mem w = (Inr spk, w')
                 \<and> data (heap w' ! spk) = out"
proof -
  let ?n = "length (heap w)"
  obtain t1 where s1: "torch_sub mem (threshold self) w = (Inr ?n, w\<lparr>heap := heap w @ [t1]\<rparr>)"
    and d1: "data t1 = sh"
    using sub by (simp add: torch_sub_def alloc_def op_result_def)
  let ?w1 = "w\<lparr>heap := heap w @ [t1]\<rparr>"
  have s2: "torch_argmax1 ?n ?w1 = (Inr index, ?w1)"
    using am by (simp add: torch_argmax1_def d1)
  obtain t2 where s3: "apply_spike (spike_grad self) ?n ?w1
                       = (Inr (Suc ?n), w\<lparr>heap := heap w @ [t1, t2]\<rparr>)"
    and d2: "data t2 = tmp" "dtype t2 = DFloat"
    unfolding tmp
    by (cases "spike_grad self")
       (simp_all add: apply_spike_def alloc_def op_result_def d1 Heaviside_forward_def Let_def)
  let ?w2 = "w\<lparr>heap := heap w @ [t1, t2]\<rparr>"
  let ?t3 = "\<lparr>data = tmap (\<lambda>x. Fin 0) tmp, dtype = DFloat, requires_grad = False,
              grad_fn = None, init_flag = None\<rparr>"
  have s4: "torch_zeros_like (Suc ?n) False ?w2
            = (Inr (Suc (Suc ?n)), w\<lparr>heap := heap w @ [t1, t2, ?t3]\<rparr>)"
    by (simp add: torch_zeros_like_def alloc_def nth_append d2)
  let ?w3 = "w\<lparr>heap := heap w @ [t1, t2, ?t3]\<rparr>"
  let ?t3' = "\<lparr>data = msk, dtype = DFloat, requires_grad = False, grad_fn = None,
               init_flag = None\<rparr>"
  have s5: "torch_index_put (Suc (Suc ?n)) batch_size index ?w3
            = (Inr (), w\<lparr>heap := heap w @ [t1, t2, ?t3']\<rparr>)"
    using put by (simp add: torch_index_put_def nth_append list_update_append)
  let ?w4 = "w\<lparr>heap := heap w @ [t1, t2, ?t3']\<rparr>"
  obtain t4 where s6: "torch_mul (Suc ?n) (Suc (Suc ?n)) ?w4
                       = (Inr (Suc (Suc (Suc ?n))), w\<lparr>heap := heap w @ [t1, t2, ?t3', t4]\<rparr>)"
    and d4: "data t4 = out"
    using mul by (simp add: torch_mul_def alloc_def op_result_def nth_append d2)
  have "fire_inhibition self batch_size mem w
        = (Inr (Suc (Suc (Suc ?n))), w\<lparr>heap := heap w @ [t1, t2, ?t3', t4]\<rparr>)"
    by (simp add: fire_inhibition_def bind_def s1 s2 s3 s4 s5 s6 return_def)
  moreover have "data (heap (w\<lparr>heap := heap w @ [t1, t2, ?t3', t4]\<rparr>) ! Suc (Suc (Suc ?n))) = out"
    by (simp add: nth_append d4)
  ultimately show ?thesis by blast
qed

lemma filter_nonzero_le_1:
  assumes "k < length ys" and "\<forall>j < length ys. j \<noteq> k \<longrightarrow> ys ! j = Fin 0"
  shows "length (filter (\<lambda>x. x \<noteq> Fin 0) ys) \<le> 1"
proof -
  have ys: "ys = take k ys @ ys ! k # drop (Suc k) ys"
    using assms(1) by (rule id_take_nth_drop)
  have a: "filter (\<lambda>x. x \<noteq> Fin 0) (take k ys) = []"
    using assms by (auto simp: filter_empty_conv in_set_conv_nth)
  have b: "filter (\<lambda>x. x \<noteq> Fin 0) (drop (Suc k) ys) = []"
    using assms by (auto simp: filter_empty_conv in_set_conv_nth)
  have "length (filter (\<lambda>x. x \<noteq> Fin 0) (take k ys @ ys ! k # drop (Suc k) ys)) \<le> 1"
    by (simp add: a b)
  with ys show ?thesis by simp
qed

lemma inhibition_rows:
  assumes sh: "has_shape2 (D2 u sh) b u" and u: "0 < u" and fin: "\<forall>x. is_fin (g x)"
  shows "\<exists>index msk out.
           t_argmax1 (D2 u sh) = Inr index
         \<and> t_index_put (tmap (\<lambda>x. Fin 0) (D2 u (map (map g) sh))) b index = Inr (D2 u msk)
         \<and> t_mul (D2 u (map (map g) sh)) (D2 u msk) = Inr (D2 u out)
         \<and> length index = b \<and> length out = b
         \<and> (\<forall>i < b. argmax_row (sh ! i) = Inr (index ! i) \<and> index ! i < u
                \<and> length (out ! i) = u
                \<and> (\<forall>j < u. out ! i ! j = (if j = index ! i then g (sh ! i ! j) else Fin 0)))"
proof -
  have len: "length sh = b" and rowlen: "\<And>i. i < b \<Longrightarrow> length (sh ! i) = u"
    using sh by (auto simp: has_shape2_def list_all_length)
  have "\<forall>r \<in> set sh. \<exists>k. argmax_row r = Inr k"
  proof
    fix r assume "r \<in> set sh"
    then have "length r = u" using sh by (auto simp: has_shape2_def list_all_iff)
    with u have "r \<noteq> []" by auto
    from argmax_row_spec [OF this] show "\<exists>k. argmax_row r = Inr k" by blast
  qed
  from collect_all_ok [OF this] obtain index where
    idx: "collect (map argmax_row sh) = Inr index" "length index = length sh"
         "\<forall>i < length sh. argmax_row (sh ! i) = Inr (index ! i)" by blast
  have idx_lt: "index ! i < u" if "i < b" for i
  proof -
    from that rowlen u have ne: "sh ! i \<noteq> []" by fastforce
    from argmax_row_spec [OF ne] idx(3) that len rowlen [OF that]
    show ?thesis by auto
  qed
  let ?tmp = "map (map g) sh"
  let ?zeros = "map (map (\<lambda>x. Fin 0)) ?tmp"
  have pairs: "index_pairs b index = Inr (zip [0 ..< 0 + b] index)"
    using idx(2) len by (simp add: index_pairs_def)
  have "\<exists>rows'. put_ones (zip [0 ..< 0 + b] index) ?zeros = Inr rows'
           \<and> length rows' = length ?zeros
           \<and> (\<forall>r < length ?zeros. rows' ! r =
                 (if 0 \<le> r \<and> r < 0 + b then (?zeros ! r)[index ! (r - 0) := Fin 1]
                  else ?zeros ! r))"
  proof (rule put_ones_zip)
    show "length index = b" using idx(2) len by simp
    show "0 + b \<le> length ?zeros" using len by simp
    show "\<forall>i < b. index ! i < length (?zeros ! (0 + i))"
      using idx_lt rowlen len by simp
  qed
  then obtain msk where
    msk: "put_ones (zip [0 ..< 0 + b] index) ?zeros = Inr msk" "length msk = b"
         "\<And>r. r < b \<Longrightarrow> msk ! r = (?zeros ! r)[index ! r := Fin 1]"
    using len by auto
  have put: "t_index_put (tmap (\<lambda>x. Fin 0) (D2 u ?tmp)) b index = Inr (D2 u msk)"
    using msk(1) by (simp add: t_index_put_def pairs)
  have msk_len: "length (msk ! i) = u" if "i < b" for i
    using msk(3) [OF that] rowlen [OF that] that len by simp
  have msk_nth: "msk ! i ! j = (if j = index ! i then Fin 1 else Fin 0)" if "i < b" "j < u" for i j
    using msk(3) [OF that(1)] rowlen [OF that(1)] that len by (simp add: nth_list_update)
  have same: "list_all2 (\<lambda>r q. length r = length q) ?tmp msk"
    using len msk(2) msk_len rowlen by (simp add: list_all2_conv_all_nth)
  let ?out = "map2 (map2 fl_mul) ?tmp msk"
  have mul: "t_mul (D2 u ?tmp) (D2 u msk) = Inr (D2 u ?out)"
    by (simp add: t_mul_def bdim_def rows_bin_same [OF same])
  have out_len: "length ?out = b" using len msk(2) by simp
  have out_row: "length (?out ! i) = u
                \<and> (\<forall>j < u. ?out ! i ! j = (if j = index ! i then g (sh ! i ! j) else Fin 0))"
    if "i < b" for i
    using that len msk(2) msk_len [OF that] rowlen [OF that] msk_nth [OF that] fin
    by (simp add: fl_mul_one fl_mul_zero)
  have am: "t_argmax1 (D2 u sh) = Inr index" using idx(1) u by simp
  have "\<forall>i < b. argmax_row (sh ! i) = Inr (index ! i) \<and> index ! i < u
                \<and> length (?out ! i) = u
                \<and> (\<forall>j < u. ?out ! i ! j = (if j = index ! i then g (sh ! i ! j) else Fin 0))"
    using idx(3) len idx_lt out_row by blast
  with am put mul idx(2) len out_len show ?thesis by blast
qed

lemma elementwise_finite: "elementwise sg g \<Longrightarrow> is_fin (g x)"
  by (cases sg) (simp_all add: elementwise_def gt0_float_def)

lemma spike_data_elementwise:
  "elementwise sg g \<Longrightarrow>
   (case sg of Heaviside_apply \<Rightarrow> snd (Heaviside_forward [] d) | Custom f \<Rightarrow> f d) = tmap g d"
  by (cases sg) (simp_all add: elementwise_def Heaviside_forward_def Let_def)

text \<open>
  A scalar threshold and a threshold with one entry per unit give a difference of the shape
  of the membrane.
\<close>

lemma t_sub_threshold_shape:
  assumes "has_shape2 (D2 u rows) b u"
    and "thr = D0 c \<or> (thr = D1 ts \<and> length ts = u)"
  shows "\<exists>sh. t_sub (D2 u rows) thr = Inr (D2 u sh) \<and> has_shape2 (D2 u sh) b u
          \<and> (\<forall>i < b. \<forall>j < u. sh ! i ! j
                = fl_sub (rows ! i ! j) (case thr of D0 c \<Rightarrow> c | D1 ts \<Rightarrow> ts ! j))"
proof -
  have len: "length rows = b" and rowlen: "\<forall>r \<in> set rows. length r = u"
    using assms(1) by (auto simp: has_shape2_def list_all_iff)
  from assms(2) show ?thesis
  proof
    assume thr: "thr = D0 c"
    have "has_shape2 (D2 u (map (map (\<lambda>x. fl_sub x c)) rows)) b u"
      using assms(1) by (simp add: has_shape2_def list_all_iff)
    moreover have "\<forall>i < b. \<forall>j < u. map (map (\<lambda>x. fl_sub x c)) rows ! i ! j
                     = fl_sub (rows ! i ! j) c"
      using len rowlen by simp
    ultimately show ?thesis by (simp add: thr t_sub_def)
  next
    assume thr: "thr = D1 ts \<and> length ts = u"
    have each: "\<forall>r \<in> set rows. \<exists>v. vec_bin fl_sub r ts = Inr v"
      using rowlen thr by (simp add: vec_bin_def)
    from collect_all_ok [OF each] obtain sh where
      sh: "collect (map (\<lambda>r. vec_bin fl_sub r ts) rows) = Inr sh" "length sh = length rows"
          "\<forall>i < length rows. vec_bin fl_sub (rows ! i) ts = Inr (sh ! i)" by blast
    have row: "sh ! i = map2 fl_sub (rows ! i) ts" if "i < b" for i
      using sh(3) that len rowlen thr by (simp add: vec_bin_def)
    have "has_shape2 (D2 u sh) b u"
      using sh(2) len row rowlen thr by (simp add: has_shape2_def list_all_length)
    moreover have "\<forall>i < b. \<forall>j < u. sh ! i ! j = fl_sub (rows ! i ! j) (ts ! j)"
      using row len rowlen thr by simp
    ultimately show ?thesis using sh(1) thr by (simp add: t_sub_def bdim_def)
  qed
qed

text \<open>
  C4 (as the code has it).  Let the membrane have shape (batch_size, units) with at least
  one unit, let \<open>sh\<close>, the membrane minus the threshold, be defined and have this shape (as it
  is and has for a scalar threshold and for one threshold per unit), and let the spiking
  function act entry by entry as \<open>g\<close> with finite values, as the default one does.  Then
  \<open>fire_inhibition\<close> returns a tensor \<open>out\<close> of this shape, and in every row \<open>i\<close> the index \<open>k\<close>
  of the first largest entry of \<open>sh ! i\<close> is the only place where \<open>out ! i\<close> can differ from 0:
  there it is \<open>g\<close> of the shifted value, everywhere else it is 0, so that at most one entry
  of the row is not 0, and none is when the largest shifted value does not fire.
\<close>

theorem fire_inhibition_winner_take_all:
  assumes mem: "has_shape2 (data (heap w ! mem)) batch_size units"
    and units: "0 < units"
    and sub: "tensor_sub (heap w ! mem) (heap w ! threshold self) = Inr (D2 units sh)"
    and sh: "has_shape2 (D2 units sh) batch_size units"
    and g: "elementwise (spike_grad self) g"
  shows "\<exists>spk w' out.
           fire_inhibition self batch_size mem w = (Inr spk, w')
         \<and> data (heap w' ! spk) = D2 units out
         \<and> has_shape2 (D2 units out) batch_size units
         \<and> (\<forall>i < batch_size. \<exists>k < units.
                argmax_row (sh ! i) = Inr k
              \<and> (\<forall>j < units. \<not> fl_lt (sh ! i ! k) (sh ! i ! j))
              \<and> (\<forall>j < k. fl_lt (sh ! i ! j) (sh ! i ! k))
              \<and> out ! i ! k = g (sh ! i ! k)
              \<and> (\<forall>j < units. j \<noteq> k \<longrightarrow> out ! i ! j = Fin 0)
              \<and> length (filter (\<lambda>x. x \<noteq> Fin 0) (out ! i)) \<le> 1
              \<and> (g (sh ! i ! k) = Fin 0 \<longrightarrow> (\<forall>j < units. out ! i ! j = Fin 0)))"
proof -
  have rowlen: "length (sh ! i) = units" if "i < batch_size" for i
    using sh that by (auto simp: has_shape2_def list_all_length)
  have fin: "\<forall>x. is_fin (g x)" using elementwise_finite [OF g] by blast
  from inhibition_rows [OF sh units fin] obtain index msk out where
    am: "t_argmax1 (D2 units sh) = Inr index"
    and put: "t_index_put (tmap (\<lambda>x. Fin 0) (D2 units (map (map g) sh))) batch_size index
              = Inr (D2 units msk)"
    and mul: "t_mul (D2 units (map (map g) sh)) (D2 units msk) = Inr (D2 units out)"
    and lens: "length index = batch_size" "length out = batch_size"
    and rows: "\<forall>i < batch_size. argmax_row (sh ! i) = Inr (index ! i) \<and> index ! i < units
                \<and> length (out ! i) = units
                \<and> (\<forall>j < units. out ! i ! j
                      = (if j = index ! i then g (sh ! i ! j) else Fin 0))"
    by blast
  have tmp: "D2 units (map (map g) sh)
             = (case spike_grad self of
                  Heaviside_apply \<Rightarrow> snd (Heaviside_forward [] (D2 units sh))
                | Custom f \<Rightarrow> f (D2 units sh))"
    using spike_data_elementwise [OF g, of "D2 units sh"] by simp
  from fire_inhibition_data [OF sub am tmp put mul]
  obtain spk w' where res: "fire_inhibition self batch_size mem w = (Inr spk, w')"
    "data (heap w' ! spk) = D2 units out" by auto
  have out_shape: "has_shape2 (D2 units out) batch_size units"
    using lens(2) rows by (simp add: has_shape2_def list_all_length)
  have each: "\<exists>k < units.
                argmax_row (sh ! i) = Inr k
              \<and> (\<forall>j < units. \<not> fl_lt (sh ! i ! k) (sh ! i ! j))
              \<and> (\<forall>j < k. fl_lt (sh ! i ! j) (sh ! i ! k))
              \<and> out ! i ! k = g (sh ! i ! k)
              \<and> (\<forall>j < units. j \<noteq> k \<longrightarrow> out ! i ! j = Fin 0)
              \<and> length (filter (\<lambda>x. x \<noteq> Fin 0) (out ! i)) \<le> 1
              \<and> (g (sh ! i ! k) = Fin 0 \<longrightarrow> (\<forall>j < units. out ! i ! j = Fin 0))"
    if i: "i < batch_size" for i
  proof -
    let ?k = "index ! i"
    from rows i have r: "argmax_row (sh ! i) = Inr ?k" "?k < units" "length (out ! i) = units"
      "\<forall>j < units. out ! i ! j = (if j = ?k then g (sh ! i ! j) else Fin 0)" by auto
    from rowlen [OF i] units have ne: "sh ! i \<noteq> []" by auto
    from argmax_row_spec [OF ne] r(1) rowlen [OF i]
    have mx: "\<forall>j < units. \<not> fl_lt (sh ! i ! ?k) (sh ! i ! j)"
      "\<forall>j < ?k. fl_lt (sh ! i ! j) (sh ! i ! ?k)"
      by auto
    have zero: "\<forall>j < units. j \<noteq> ?k \<longrightarrow> out ! i ! j = Fin 0" using r(4) by simp
    have one: "length (filter (\<lambda>x. x \<noteq> Fin 0) (out ! i)) \<le> 1"
      by (rule filter_nonzero_le_1 [of ?k]) (use r(2,3) zero in simp_all)
    have "out ! i ! ?k = g (sh ! i ! ?k)" using r(2,4) by simp
    moreover have "g (sh ! i ! ?k) = Fin 0 \<longrightarrow> (\<forall>j < units. out ! i ! j = Fin 0)"
      using r(4) by simp
    ultimately show ?thesis using r(1,2) mx zero one by blast
  qed
  from res out_shape each show ?thesis by blast
qed

theorem fire_inhibition_winner_take_all_witness:
  "has_shape2 (D2 3 [[Fin (11/10), Fin (19/10), Fin (8/10)], [Fin 0, Fin 0, Fin 0]]) 2 3
   \<and> tensor_sub
       \<lparr>data = D2 3 [[Fin (11/10), Fin (19/10), Fin (8/10)], [Fin 0, Fin 0, Fin 0]],
        dtype = DFloat, requires_grad = False, grad_fn = None, init_flag = None\<rparr>
       \<lparr>data = D0 (Fin 1), dtype = DFloat, requires_grad = False, grad_fn = None,
        init_flag = None\<rparr>
       = Inr (D2 3 [[Fin (1/10), Fin (9/10), Fin (-2/10)], [Fin (-1), Fin (-1), Fin (-1)]])
   \<and> elementwise Heaviside_apply gt0_float
   \<and> fst (fire_inhibition
        \<lparr>beta = 1, threshold = 1, spike_grad = Heaviside_apply, init_hidden = False,
         inhibition = True, reset_mechanism = ''subtract'', output_flag = False\<rparr> 2 0
      \<lparr>heap = [\<lparr>data = D2 3 [[Fin (11/10), Fin (19/10), Fin (8/10)], [Fin 0, Fin 0, Fin 0]],
                dtype = DFloat, requires_grad = False, grad_fn = None, init_flag = None\<rparr>,
               \<lparr>data = D0 (Fin 1), dtype = DFloat, requires_grad = False, grad_fn = None,
                init_flag = None\<rparr>],
       instances = [], sub_instances = Map.empty\<rparr>) = Inr 5
   \<and> data (heap (snd (fire_inhibition
        \<lparr>beta = 1, threshold = 1, spike_grad = Heaviside_apply, init_hidden = False,
         inhibition = True, reset_mechanism = ''subtract'', output_flag = False\<rparr> 2 0
      \<lparr>heap = [\<lparr>data = D2 3 [[Fin (11/10), Fin (19/10), Fin (8/10)], [Fin 0, Fin 0, Fin 0]],
                dtype = DFloat, requires_grad = False, grad_fn = None, init_flag = None\<rparr>,
               \<lparr>data = D0 (Fin 1), dtype = DFloat, requires_grad = False, grad_fn = None,
                init_flag = None\<rparr>],
       instances = [], sub_instances = Map.empty\<rparr>)) ! 5)
     = D2 3 [[Fin 0, Fin 1, Fin 0], [Fin 0, Fin 0, Fin 0]]"
  using fire_inhibition_winner_take_all [where w =
      "\<lparr>heap = [\<lparr>data = D2 3 [[Fin (11/10), Fin (19/10), Fin (8/10)], [Fin 0, Fin 0, Fin 0]],
                dtype = DFloat, requires_grad = False, grad_fn = None, init_flag = None\<rparr>,
               \<lparr>data = D0 (Fin 1), dtype = DFloat, requires_grad = False, grad_fn = None,
                init_flag = None\<rparr>],
       instances = [], sub_instances = Map.empty\<rparr>" and mem = 0 and batch_size = 2
      and units = 3 and self =
      "\<lparr>beta = 1, threshold = 1, spike_grad = Heaviside_apply, init_hidden = False,
         inhibition = True, reset_mechanism = ''subtract'', output_flag = False\<rparr>"
      and sh = "[[Fin (1/10), Fin (9/10), Fin (-2/10)], [Fin (-1), Fin (-1), Fin (-1)]]"
      and g = gt0_float]
  by (simp add: has_shape2_def tensor_sub_def t_sub_def elementwise_def fire_inhibition_def
        prim_defs op_result_def edges_def Let_def Heaviside_forward_def gt0_float_def
        t_index_put_def index_pairs_def t_mul_def rows_bin_def vec_bin_def bdim_def
        eval_nat_numeral)

text \<open>
  C4 as stated does not hold for every membrane.  A membrane of shape (1, 0) makes
  \<open>fire_inhibition\<close> raise \<^verbatim>\<open>IndexError\<close>; a membrane of shape (2, 1) with a threshold of three
  entries gives a tensor of shape (2, 3); and with a spiking function that returns an
  infinity at every entry, the entry beside the largest one is NaN, not 0.
\<close>

theorem fire_inhibition_winner_take_all_counterexample:
  "has_shape2 (D2 0 [[]]) 1 0
   \<and> fst (fire_inhibition
        \<lparr>beta = 1, threshold = 1, spike_grad = Heaviside_apply, init_hidden = False,
         inhibition = True, reset_mechanism = ''subtract'', output_flag = False\<rparr> 1 0
      \<lparr>heap = [\<lparr>data = D2 0 [[]], dtype = DFloat, requires_grad = False, grad_fn = None,
                init_flag = None\<rparr>,
               \<lparr>data = D0 (Fin 1), dtype = DFloat, requires_grad = False, grad_fn = None,
                init_flag = None\<rparr>],
       instances = [], sub_instances = Map.empty\<rparr>) = Inl IndexError
   \<and> has_shape2 (D2 1 [[Fin 2], [Fin 0]]) 2 1
   \<and> data (heap (snd (fire_inhibition
        \<lparr>beta = 1, threshold = 1, spike_grad = Heaviside_apply, init_hidden = False,
         inhibition = True, reset_mechanism = ''subtract'', output_flag = False\<rparr> 2 0
      \<lparr>heap = [\<lparr>data = D2 1 [[Fin 2], [Fin 0]], dtype = DFloat, requires_grad = False,
                grad_fn = None, init_flag = None\<rparr>,
               \<lparr>data = D1 [Fin 1, Fin 1, Fin 1], dtype = DFloat, requires_grad = False,
                grad_fn = None, init_flag = None\<rparr>],
       instances = [], sub_instances = Map.empty\<rparr>)) ! 5)
     = D2 3 [[Fin 1, Fin 0, Fin 0], [Fin 0, Fin 0, Fin 0]]
   \<and> has_shape2 (D2 2 [[Fin 2, Fin 3]]) 1 2
   \<and> data (heap (snd (fire_inhibition
        \<lparr>beta = 1, threshold = 1, spike_grad = Custom (tmap (\<lambda>x. PInf)), init_hidden = False,
         inhibition = True, reset_mechanism = ''subtract'', output_flag = False\<rparr> 1 0
      \<lparr>heap = [\<lparr>data = D2 2 [[Fin 2, Fin 3]], dtype = DFloat, requires_grad = False,
                grad_fn = None, init_flag = None\<rparr>,
               \<lparr>data = D0 (Fin 1), dtype = DFloat, requires_grad = False, grad_fn = None,
                init_flag = None\<rparr>],
       instances = [], sub_instances = Map.empty\<rparr>)) ! 5)
     = D2 2 [[NaN, PInf]]"
  by (simp add: has_shape2_def tensor_sub_def t_sub_def fire_inhibition_def
        prim_defs op_result_def edges_def Let_def Heaviside_forward_def gt0_float_def
        t_index_put_def index_pairs_def t_mul_def rows_bin_def vec_bin_def bdim_def
        inf_times_def eval_nat_numeral)

lemma fire_data:
  assumes "tensor_sub (heap w ! mem) (heap w ! threshold self) = Inr sh"
  shows "\<exists>spk w'. fire self mem w = (Inr spk, w')
          \<and> data (heap w' ! spk) = (case spike_grad self of
                  Heaviside_apply \<Rightarrow> snd (Heaviside_forward [] sh) | Custom f \<Rightarrow> f sh)"
  using assms
  by (auto simp add: fire_def prim_defs Let_def op_result_def nth_append
           split: sum.splits prod.splits spike_fn.splits)

lemma mem_reset_data:
  assumes "tensor_sub (heap w ! mem) (heap w ! threshold self) = Inr sh"
  shows "\<exists>reset w'. mem_reset self mem w = (Inr reset, w')
          \<and> heap w' ! reset = \<lparr>data = (case spike_grad self of
                  Heaviside_apply \<Rightarrow> snd (Heaviside_forward [] sh) | Custom f \<Rightarrow> f sh),
               dtype = DFloat, requires_grad = False, grad_fn = None, init_flag = None\<rparr>"
  using assms
  by (auto simp add: mem_reset_def prim_defs Let_def op_result_def nth_append
           split: sum.splits prod.splits spike_fn.splits)

lemma fire_mem_reset_fail:
  assumes "tensor_sub (heap w ! mem) (heap w ! threshold self) = Inl e"
  shows "fire self mem w = (Inl e, w) \<and> mem_reset self mem w = (Inl e, w)"
  using assms by (simp add: fire_def mem_reset_def prim_defs)

lemma grad_targets_detached:
  "heap w ! a = \<lparr>data = d, dtype = ty, requires_grad = False, grad_fn = None, init_flag = None\<rparr>
   \<Longrightarrow> grad_targets w a = []"
  by (simp add: grad_targets_def)

text \<open>
  C6.  \<open>mem_reset\<close> raises exactly when \<open>fire\<close> raises, with the same exception.  When it
  returns, its tensor has the contents of the tensor \<open>fire\<close> returns for the same membrane,
  tracks no gradient and has no node in the differentiation graph: a backward pass through
  it reaches no leaf.
\<close>

theorem mem_reset_detached_fire_values:
  "(case tensor_sub (heap w ! mem) (heap w ! threshold self) of
      Inl e \<Rightarrow> fire self mem w = (Inl e, w) \<and> mem_reset self mem w = (Inl e, w)
    | Inr sh \<Rightarrow>
        (\<exists>reset w' spk w0.
            mem_reset self mem w = (Inr reset, w')
          \<and> fire self mem w = (Inr spk, w0)
          \<and> data (heap w' ! reset) = data (heap w0 ! spk)
          \<and> \<not> requires_grad (heap w' ! reset)
          \<and> grad_fn (heap w' ! reset) = None
          \<and> grad_targets w' reset = []))"
proof (cases "tensor_sub (heap w ! mem) (heap w ! threshold self)")
  case (Inl e)
  with fire_mem_reset_fail [OF Inl] show ?thesis by simp
next
  case (Inr sh)
  from mem_reset_data [OF Inr] obtain reset w' where
    r: "mem_reset self mem w = (Inr reset, w')"
       "heap w' ! reset = \<lparr>data = (case spike_grad self of
                  Heaviside_apply \<Rightarrow> snd (Heaviside_forward [] sh) | Custom f \<Rightarrow> f sh),
               dtype = DFloat, requires_grad = False, grad_fn = None, init_flag = None\<rparr>"
    by blast
  from fire_data [OF Inr] obtain spk w0 where
    f: "fire self mem w = (Inr spk, w0)"
       "data (heap w0 ! spk) = (case spike_grad self of
                  Heaviside_apply \<Rightarrow> snd (Heaviside_forward [] sh) | Custom f \<Rightarrow> f sh)" by blast
  have "data (heap w' ! reset) = data (heap w0 ! spk)" by (simp add: r(2) f(2))
  moreover have "\<not> requires_grad (heap w' ! reset)" "grad_fn (heap w' ! reset) = None"
    by (simp_all add: r(2))
  moreover have "grad_targets w' reset = []" by (rule grad_targets_detached [OF r(2)])
  ultimately have "\<exists>reset w' spk w0.
            mem_reset self mem w = (Inr reset, w')
          \<and> fire self mem w = (Inr spk, w0)
          \<and> data (heap w' ! reset) = data (heap w0 ! spk)
          \<and> \<not> requires_grad (heap w' ! reset)
          \<and> grad_fn (heap w' ! reset) = None
          \<and> grad_targets w' reset = []"
    using r(1) f(1) by blast
  then show ?thesis by (simp add: Inr)
qed

text \<open>The tensor \<open>fire\<close> returns does reach a threshold that is learnable.\<close>

lemma fire_tracks_threshold:
  assumes "tensor_sub (heap w ! mem) (heap w ! threshold self) = Inr sh"
    and "requires_grad (heap w ! threshold self)" and "grad_fn (heap w ! threshold self) = None"
    and "threshold self < length (heap w)"
  shows "threshold self \<in> set (grad_targets (snd (fire self mem w)) (length (heap w) + 1))"
  using assms
  by (cases "spike_grad self")
     (simp_all add: fire_def prim_defs op_result_def edges_def grad_targets_def Let_def
        nth_append Heaviside_forward_def)

theorem mem_reset_detached_fire_values_witness:
  "fst (fire
        \<lparr>beta = 1, threshold = 1, spike_grad = Heaviside_apply, init_hidden = False,
         inhibition = False, reset_mechanism = ''subtract'', output_flag = False\<rparr> 0
      \<lparr>heap = [\<lparr>data = D1 [Fin (1/2), Fin 1, Fin (3/2)], dtype = DFloat,
                requires_grad = False, grad_fn = None, init_flag = None\<rparr>,
               \<lparr>data = D0 (Fin 1), dtype = DFloat, requires_grad = True, grad_fn = None,
                init_flag = None\<rparr>],
       instances = [], sub_instances = Map.empty\<rparr>) = Inr 3
   \<and> data (heap (snd (fire
        \<lparr>beta = 1, threshold = 1, spike_grad = Heaviside_apply, init_hidden = False,
         inhibition = False, reset_mechanism = ''subtract'', output_flag = False\<rparr> 0
      \<lparr>heap = [\<lparr>data = D1 [Fin (1/2), Fin 1, Fin (3/2)], dtype = DFloat,
                requires_grad = False, grad_fn = None, init_flag = None\<rparr>,
               \<lparr>data = D0 (Fin 1), dtype = DFloat, requires_grad = True, grad_fn = None,
                init_flag = None\<rparr>],
       instances = [], sub_instances = Map.empty\<rparr>)) ! 3) = D1 [Fin 0, Fin 0, Fin 1]
   \<and> grad_targets (snd (fire
        \<lparr>beta = 1, threshold = 1, spike_grad = Heaviside_apply, init_hidden = False,
         inhibition = False, reset_mechanism = ''subtract'', output_flag = False\<rparr> 0
      \<lparr>heap = [\<lparr>data = D1 [Fin (1/2), Fin 1, Fin (3/2)], dtype = DFloat,
                requires_grad = False, grad_fn = None, init_flag = None\<rparr>,
               \<lparr>data = D0 (Fin 1), dtype = DFloat, requires_grad = True, grad_fn = None,
                init_flag = None\<rparr>],
       instances = [], sub_instances = Map.empty\<rparr>)) 3 = [1]
   \<and> fst (mem_reset
        \<lparr>beta = 1, threshold = 1, spike_grad = Heaviside_apply, init_hidden = False,
         inhibition = False, reset_mechanism = ''subtract'', output_flag = False\<rparr> 0
      \<lparr>heap = [\<lparr>data = D1 [Fin (1/2), Fin 1, Fin (3/2)], dtype = DFloat,
                requires_grad = False, grad_fn = None, init_flag = None\<rparr>,
               \<lparr>data = D0 (Fin 1), dtype = DFloat, requires_grad = True, grad_fn = None,
                init_flag = None\<rparr>],
       instances = [], sub_instances = Map.empty\<rparr>) = Inr 5
   \<and> data (heap (snd (mem_reset
        \<lparr>beta = 1, threshold = 1, spike_grad = Heaviside_apply, init_hidden = False,
         inhibition = False, reset_mechanism = ''subtract'', output_flag = False\<rparr> 0
      \<lparr>heap = [\<lparr>data = D1 [Fin (1/2), Fin 1, Fin (3/2)], dtype = DFloat,
                requires_grad = False, grad_fn = None, init_flag = None\<rparr>,
               \<lparr>data = D0 (Fin 1), dtype = DFloat, requires_grad = True, grad_fn = None,
                init_flag = None\<rparr>],
       instances = [], sub_instances = Map.empty\<rparr>)) ! 5) = D1 [Fin 0, Fin 0, Fin 1]
   \<and> grad_targets (snd (mem_reset
        \<lparr>beta = 1, threshold = 1, spike_grad = Heaviside_apply, init_hidden = False,
         inhibition = False, reset_mechanism = ''subtract'', output_flag = False\<rparr> 0
      \<lparr>heap = [\<lparr>data = D1 [Fin (1/2), Fin 1, Fin (3/2)], dtype = DFloat,
                requires_grad = False, grad_fn = None, init_flag = None\<rparr>,
               \<lparr>data = D0 (Fin 1), dtype = DFloat, requires_grad = True, grad_fn = None,
                init_flag = None\<rparr>],
       instances = [], sub_instances = Map.empty\<rparr>)) 5 = []"
  using mem_reset_detached_fire_values [where w =
      "\<lparr>heap = [\<lparr>data = D1 [Fin (1/2), Fin 1, Fin (3/2)], dtype = DFloat,
                requires_grad = False, grad_fn = None, init_flag = None\<rparr>,
               \<lparr>data = D0 (Fin 1), dtype = DFloat, requires_grad = True, grad_fn = None,
                init_flag = None\<rparr>],
       instances = [], sub_instances = Map.empty\<rparr>" and mem = 0 and self =
      "\<lparr>beta = 1, threshold = 1, spike_grad = Heaviside_apply, init_hidden = False,
         inhibition = False, reset_mechanism = ''subtract'', output_flag = False\<rparr>"]
  by (simp add: tensor_sub_def t_sub_def fire_def mem_reset_def prim_defs op_result_def
        edges_def Let_def Heaviside_forward_def gt0_float_def grad_targets_def
        eval_nat_numeral)

end
